theory Spec2Isabelle
  imports Complex_Main "HOL-Library.Sublist" "HOL-Library.Multiset"
begin

section \<open>Numbers and the Math object\<close>

text \<open>
  The program is the browser script \<^verbatim>\<open>static/js/main.js\<close>. A JavaScript Number is an
  IEEE 754 double. In the model a finite Number is the real number it denotes, NaN is
  \<open>None\<close>, and every arithmetic operation rounds its exact result to a double; the
  infinities, overflow and the subnormal range are outside the model.
\<close>

text \<open>
  Rounding to the nearest double, ties to even: the exact result \<open>x\<close> lies in the binade
  \<open>2\<^sup>k \<le> |x| < 2\<^sup>k\<^sup>+\<^sup>1\<close>, where doubles are the integer multiples of \<open>2\<^sup>k\<^sup>-\<^sup>5\<^sup>2\<close>.
\<close>

definition pow2 :: "int \<Rightarrow> real" where
  "pow2 k = (if 0 \<le> k then 2 ^ nat k else inverse (2 ^ nat (- k)))"

definition binade :: "real \<Rightarrow> int" where
  "binade x = \<lfloor>log 2 \<bar>x\<bar>\<rfloor>"

definition rne :: "real \<Rightarrow> int" where
  "rne y =
     (let f = \<lfloor>y\<rfloor>
      in if y - of_int f < 1 / 2 then f
         else if 1 / 2 < y - of_int f then f + 1
         else if even f then f else f + 1)"

definition double_round :: "real \<Rightarrow> real" where
  "double_round x =
     (if x = 0 then 0
      else of_int (rne (x / pow2 (binade x - 52))) * pow2 (binade x - 52))"

text \<open>
  The engine that runs the script: \<open>fl\<close> rounds the exact result of \<open>+\<close>, \<open>-\<close>, \<open>*\<close>, \<open>/\<close> and
  of the square root, \<open>number_PI\<close> is \<^verbatim>\<open>Math.PI\<close>, and \<open>lib_sin\<close>, \<open>lib_cos\<close>, \<open>lib_atan2\<close> are
  \<^verbatim>\<open>Math.sin\<close>, \<^verbatim>\<open>Math.cos\<close>, \<^verbatim>\<open>Math.atan2\<close>, which the language standard leaves to the
  implementation as approximations.
\<close>

record engine =
  fl :: "real \<Rightarrow> real"
  number_PI :: real
  lib_sin :: "real \<Rightarrow> real"
  lib_cos :: "real \<Rightarrow> real"
  lib_atan2 :: "real \<Rightarrow> real \<Rightarrow> real"

definition fadd :: "engine \<Rightarrow> real \<Rightarrow> real \<Rightarrow> real" where
  "fadd eng x y = fl eng (x + y)"

definition fsub :: "engine \<Rightarrow> real \<Rightarrow> real \<Rightarrow> real" where
  "fsub eng x y = fl eng (x - y)"

definition fmul :: "engine \<Rightarrow> real \<Rightarrow> real \<Rightarrow> real" where
  "fmul eng x y = fl eng (x * y)"

definition fdiv :: "engine \<Rightarrow> real \<Rightarrow> real \<Rightarrow> real" where
  "fdiv eng x y = fl eng (x / y)"

text \<open>\<^verbatim>\<open>Math.sqrt\<close> of a negative number is NaN: the model returns \<open>None\<close> there.\<close>

definition Math_sqrt :: "engine \<Rightarrow> real \<Rightarrow> real option" where
  "Math_sqrt eng x = (if x < 0 then None else Some (fl eng (sqrt x)))"

text \<open>
  The exact value of \<^verbatim>\<open>atan2(y, x)\<close>: the angle of the point \<open>(x, y)\<close> in \<open>(-\<pi>, \<pi>]\<close>, by the
  case table of the language standard (signed zeros apart).
\<close>

definition atan2 :: "real \<Rightarrow> real \<Rightarrow> real" where
  "atan2 y x =
     (if 0 < x then arctan (y / x)
      else if x < 0 then (if 0 \<le> y then arctan (y / x) + pi else arctan (y / x) - pi)
      else if 0 < y then pi / 2
      else if y < 0 then - (pi / 2)
      else 0)"

text \<open>
  Two engines. The exact engine computes without rounding; it is what the source would do
  on real numbers. The double engine rounds as IEEE 754 prescribes, has the double nearest
  to \<open>\<pi>\<close> as \<^verbatim>\<open>Math.PI\<close> (3.141592653589793), and a library that returns the double
  nearest to the exact value. At the arguments that the sample call of the next section
  reaches, \<open>sample_sin\<close> and \<open>sample_cos\<close> list the doubles that the libraries in use
  return (fdlibm, which V8 ports, and glibc agree on them, and they are the doubles nearest
  to the exact values):
  \<^verbatim>\<open>Math.sin(-0.13962634015954636) = -0.13917310096006544\<close>,
  \<^verbatim>\<open>Math.sin(1.5707963267948966) = 1\<close> and
  \<^verbatim>\<open>Math.cos(0.13962634015954636) = Math.cos(-0.13962634015954636) = 0.9902680687415704\<close>.
\<close>

definition exact_engine :: engine where
  "exact_engine = \<lparr>fl = (\<lambda>x. x), number_PI = pi, lib_sin = sin, lib_cos = cos, lib_atan2 = atan2\<rparr>"

definition sample_sin :: "real \<Rightarrow> real" where
  "sample_sin x =
     (if x = - (5030569068109113 / 2 ^ 55) then - (5014239404989977 / 2 ^ 55)
      else if x = 884279719003555 / 2 ^ 49 then 1
      else double_round (sin x))"

definition sample_cos :: "real \<Rightarrow> real" where
  "sample_cos x =
     (if \<bar>x\<bar> = 5030569068109113 / 2 ^ 55 then 4459770905381437 / 2 ^ 52
      else double_round (cos x))"

definition double_engine :: engine where
  "double_engine =
     \<lparr>fl = double_round, number_PI = 884279719003555 / 2 ^ 48,
      lib_sin = sample_sin, lib_cos = sample_cos,
      lib_atan2 = (\<lambda>y x. double_round (atan2 y x))\<rparr>"

section \<open>haversineDistance\<close>

text \<open>
  \<^verbatim>\<open>
  function haversineDistance(lat1, lon1, lat2, lon2) {
      const R = 6371;
      const dLat = (lat2 - lat1) * Math.PI / 180;
      const dLon = (lon2 - lon1) * Math.PI / 180;
      const a = Math.sin(dLat/2) * Math.sin(dLat/2) +
                Math.cos(lat1 * Math.PI / 180) * Math.cos(lat2 * Math.PI / 180) *
                Math.sin(dLon/2) * Math.sin(dLon/2);
      const c = 2 * Math.atan2(Math.sqrt(a), Math.sqrt(1-a));
      return R * c;
  }
  \<close>
  Every operator of the source is one rounded operation of the engine, in the source's
  order of evaluation. The result is \<open>None\<close> when one of the two square roots is NaN (NaN
  propagates through \<^verbatim>\<open>atan2\<close> and the products).
\<close>

definition haversine_a :: "engine \<Rightarrow> real \<Rightarrow> real \<Rightarrow> real \<Rightarrow> real \<Rightarrow> real" where
  "haversine_a eng lat1 lon1 lat2 lon2 =
     (let dLat = fdiv eng (fmul eng (fsub eng lat2 lat1) (number_PI eng)) 180;
          dLon = fdiv eng (fmul eng (fsub eng lon2 lon1) (number_PI eng)) 180
      in fadd eng
           (fmul eng (lib_sin eng (fdiv eng dLat 2)) (lib_sin eng (fdiv eng dLat 2)))
           (fmul eng
              (fmul eng
                 (fmul eng (lib_cos eng (fdiv eng (fmul eng lat1 (number_PI eng)) 180))
                           (lib_cos eng (fdiv eng (fmul eng lat2 (number_PI eng)) 180)))
                 (lib_sin eng (fdiv eng dLon 2)))
              (lib_sin eng (fdiv eng dLon 2))))"

definition haversineDistance :: "engine \<Rightarrow> real \<Rightarrow> real \<Rightarrow> real \<Rightarrow> real \<Rightarrow> real option" where
  "haversineDistance eng lat1 lon1 lat2 lon2 =
     (let R = 6371;
          a = haversine_a eng lat1 lon1 lat2 lon2
      in case (Math_sqrt eng a, Math_sqrt eng (fsub eng 1 a)) of
           (Some y, Some x) \<Rightarrow> Some (fmul eng R (fmul eng 2 (lib_atan2 eng y x)))
         | _ \<Rightarrow> None)"

text \<open>
  The standard Haversine formula, as the specification names it: with \<open>\<phi>\<close> the latitudes
  and \<open>\<lambda>\<close> the longitudes in radians and \<open>r\<close> the radius of the sphere,
  \<open>d = 2 r arcsin (sqrt (sin\<^sup>2 ((\<phi>\<^sub>2 - \<phi>\<^sub>1) / 2) + cos \<phi>\<^sub>1 cos \<phi>\<^sub>2 sin\<^sup>2 ((\<lambda>\<^sub>2 - \<lambda>\<^sub>1) / 2)))\<close>.
\<close>

definition radians :: "real \<Rightarrow> real" where
  "radians deg = deg * pi / 180"

definition hav :: "real \<Rightarrow> real" where
  "hav \<theta> = (sin (\<theta> / 2))\<^sup>2"

definition great_circle_km :: "real \<Rightarrow> real \<Rightarrow> real \<Rightarrow> real \<Rightarrow> real \<Rightarrow> real" where
  "great_circle_km r lat1 lon1 lat2 lon2 =
     2 * r * arcsin (sqrt (hav (radians lat2 - radians lat1) +
                           cos (radians lat1) * cos (radians lat2) *
                           hav (radians lon2 - radians lon1)))"

section \<open>Strings\<close>

text \<open>
  Decimal rendering of an integral Number, as \<^verbatim>\<open>Number.prototype.toString()\<close> gives it
  for an integer of magnitude below \<open>10\<^sup>2\<^sup>1\<close> (every time value is): the digits, most
  significant first, after a minus sign for a negative number.
\<close>

definition digit_char :: "nat \<Rightarrow> char" where
  "digit_char d = ''0123456789'' ! d"

fun digits10 :: "nat \<Rightarrow> string" where
  "digits10 n = (if n < 10 then [digit_char n] else digits10 (n div 10) @ [digit_char (n mod 10)])"

definition Number_toString :: "int \<Rightarrow> string" where
  "Number_toString i = (if i < 0 then CHR ''-'' # digits10 (nat (- i)) else digits10 (nat i))"

text \<open>
  \<^verbatim>\<open>String.prototype.slice(start)\<close> with one argument: a negative start counts from the
  end, and both are clamped to the string.
\<close>

definition slice :: "string \<Rightarrow> int \<Rightarrow> string" where
  "slice s start =
     (let len = int (length s);
          from = (if start < 0 then max (len + start) 0 else min start len)
      in drop (nat from) s)"

text \<open>
  \<^verbatim>\<open>String.prototype.substring(start, end)\<close> for non-negative arguments: both are clamped
  to the length and swapped when out of order.
\<close>

definition substring :: "string \<Rightarrow> nat \<Rightarrow> nat \<Rightarrow> string" where
  "substring s start end' =
     (let len = length s;
          a = min start len;
          b = min end' len
      in take (max a b - min a b) (drop (min a b) s))"

text \<open>\<^verbatim>\<open>String.prototype.toUpperCase()\<close> on ASCII text.\<close>

definition upper_char :: "char \<Rightarrow> char" where
  "upper_char c =
     (case map_of (zip ''abcdefghijklmnopqrstuvwxyz'' ''ABCDEFGHIJKLMNOPQRSTUVWXYZ'') c of
        Some u \<Rightarrow> u
      | None \<Rightarrow> c)"

definition toUpperCase :: "string \<Rightarrow> string" where
  "toUpperCase s = map upper_char s"

section \<open>generateTrackingNumber\<close>

text \<open>
  \<^verbatim>\<open>
  function generateTrackingNumber() {
      const prefix = 'KOC';
      const timestamp = Date.now().toString().slice(-6);
      const random = Math.random().toString(36).substring(2, 6).toUpperCase();
      return `${prefix}${timestamp}${random}`;
  }
  \<close>
  The function reads two values of its environment, which the model takes as arguments:
  \<open>now\<close> is what \<^verbatim>\<open>Date.now()\<close> returns (milliseconds since the epoch, an integer) and
  \<open>random36\<close> is the string \<^verbatim>\<open>Math.random().toString(36)\<close>.
\<close>

definition generateTrackingNumber :: "int \<Rightarrow> string \<Rightarrow> string" where
  "generateTrackingNumber now random36 =
     (let prefix = ''KOC'';
          timestamp = slice (Number_toString now) (- 6);
          random = toUpperCase (substring random36 2 6)
      in prefix @ timestamp @ random)"

text \<open>
  What \<^verbatim>\<open>Math.random().toString(36)\<close> can be: the number is in \<open>[0, 1)\<close>, so its
  rendering in radix 36 is \<^verbatim>\<open>"0"\<close> for zero and otherwise \<^verbatim>\<open>"0."\<close> followed by at least
  one digit out of \<^verbatim>\<open>0-9a-z\<close> (no exponent is used in a radix other than ten).
\<close>

definition base36_digit :: "char \<Rightarrow> bool" where
  "base36_digit c = (c \<in> set ''0123456789abcdefghijklmnopqrstuvwxyz'')"

definition radix36_fraction :: "string \<Rightarrow> bool" where
  "radix36_fraction s =
     (s = ''0'' \<or> (take 2 s = ''0.'' \<and> drop 2 s \<noteq> [] \<and> list_all base36_digit (drop 2 s)))"

definition decimal_digit :: "char \<Rightarrow> bool" where
  "decimal_digit c = (c \<in> set ''0123456789'')"

definition upper36_digit :: "char \<Rightarrow> bool" where
  "upper36_digit c = (c \<in> set ''0123456789ABCDEFGHIJKLMNOPQRSTUVWXYZ'')"

section \<open>JavaScript values\<close>

text \<open>
  The values the OSRM functions handle are plain data, as \<^verbatim>\<open>JSON.parse\<close> produces it and
  as a caller passes it: \<open>Num\<close> is a finite number, \<open>NaN\<close> the not-a-number value (the
  infinities are outside the model), \<open>Arr\<close> an array without holes, \<open>Obj\<close> a plain object as
  the list of its own properties (of a name listed twice the first entry counts), none of
  which is a function. Rounding plays no part in
  the control flow of these functions; their one division is exact in the model.
\<close>

datatype js =
    Undefined
  | Null
  | Bool bool
  | Num real
  | NaN
  | Str string
  | Arr "js list"
  | Obj "(string \<times> js) list"

datatype js_error = TypeError | FetchError | JsonSyntaxError

definition bindE :: "js_error + 'a \<Rightarrow> ('a \<Rightarrow> js_error + 'b) \<Rightarrow> js_error + 'b" where
  "bindE m f = (case m of Inl e \<Rightarrow> Inl e | Inr x \<Rightarrow> f x)"

text \<open>\<^verbatim>\<open>ToBoolean\<close>: what \<^verbatim>\<open>!v\<close> and \<^verbatim>\<open>a && b\<close> test.\<close>

fun truthy :: "js \<Rightarrow> bool" where
  "truthy Undefined = False"
| "truthy Null = False"
| "truthy (Bool b) = b"
| "truthy (Num r) = (r \<noteq> 0)"
| "truthy NaN = False"
| "truthy (Str s) = (s \<noteq> [])"
| "truthy (Arr xs) = True"
| "truthy (Obj kvs) = True"

text \<open>
  Conversion to a primitive. An array prints as its elements joined by commas, each
  converted in turn; a plain object prints through \<^verbatim>\<open>Object.prototype.toString\<close> unless an
  own property named \<^verbatim>\<open>toString\<close> hides it. An own \<^verbatim>\<open>toString\<close> of plain data is not
  callable, the inherited \<^verbatim>\<open>valueOf\<close> returns the object itself, and the conversion throws
  a TypeError. \<open>printable v\<close> says that converting \<open>v\<close> does not throw.
\<close>

fun printable :: "js \<Rightarrow> bool" where
  "printable (Obj kvs) = (map_of kvs ''toString'' = None)"
| "printable (Arr xs) = list_all printable xs"
| "printable v = True"

text \<open>
  \<^verbatim>\<open>ToString\<close>, as a template literal applies it to each substitution. The text itself is
  not computed: the value stands for its text.
\<close>

definition ToString :: "js \<Rightarrow> js_error + js" where
  "ToString v = (if printable v then Inr v else Inl TypeError)"

text \<open>
  \<^verbatim>\<open>ToNumber\<close>, with \<open>None\<close> for NaN. A string, an array or an object is first converted to
  a primitive, which can throw, and then parsed by the engine's number parser, the
  parameter \<open>conv\<close>.
\<close>

fun ToNumber :: "(js \<Rightarrow> real option) \<Rightarrow> js \<Rightarrow> js_error + real option" where
  "ToNumber conv Undefined = Inr None"
| "ToNumber conv Null = Inr (Some 0)"
| "ToNumber conv (Bool b) = Inr (Some (if b then 1 else 0))"
| "ToNumber conv (Num r) = Inr (Some r)"
| "ToNumber conv NaN = Inr None"
| "ToNumber conv v = (if printable v then Inr (conv v) else Inl TypeError)"

text \<open>\<^verbatim>\<open>v > c\<close> and \<^verbatim>\<open>v < c\<close> against a number literal: false when \<open>v\<close> converts to NaN.\<close>

definition js_gt :: "(js \<Rightarrow> real option) \<Rightarrow> js \<Rightarrow> real \<Rightarrow> js_error + bool" where
  "js_gt conv v c =
     bindE (ToNumber conv v) (\<lambda>n. Inr (case n of Some x \<Rightarrow> c < x | None \<Rightarrow> False))"

definition js_lt :: "(js \<Rightarrow> real option) \<Rightarrow> js \<Rightarrow> real \<Rightarrow> js_error + bool" where
  "js_lt conv v c =
     bindE (ToNumber conv v) (\<lambda>n. Inr (case n of Some x \<Rightarrow> x < c | None \<Rightarrow> False))"

text \<open>\<^verbatim>\<open>v / c\<close> for a non-zero number literal \<open>c\<close>.\<close>

definition js_div :: "(js \<Rightarrow> real option) \<Rightarrow> js \<Rightarrow> real \<Rightarrow> js_error + js" where
  "js_div conv v c =
     bindE (ToNumber conv v) (\<lambda>n. Inr (case n of Some x \<Rightarrow> Num (x / c) | None \<Rightarrow> NaN))"

text \<open>
  Reading a data property \<^verbatim>\<open>v.name\<close>: a TypeError on \<^verbatim>\<open>null\<close> and \<^verbatim>\<open>undefined\<close>,
  \<^verbatim>\<open>undefined\<close> for a property the value does not have. The names read by the program
  (\<^verbatim>\<open>code\<close>, \<^verbatim>\<open>routes\<close>, \<^verbatim>\<open>geometry\<close>, \<^verbatim>\<open>coordinates\<close>, \<^verbatim>\<open>distance\<close>, \<^verbatim>\<open>duration\<close>,
  \<^verbatim>\<open>length\<close>) are defined by no prototype other than \<^verbatim>\<open>length\<close> of arrays and strings.
\<close>

fun js_get :: "js \<Rightarrow> string \<Rightarrow> js_error + js" where
  "js_get Undefined k = Inl TypeError"
| "js_get Null k = Inl TypeError"
| "js_get (Obj kvs) k = Inr (case map_of kvs k of Some v \<Rightarrow> v | None \<Rightarrow> Undefined)"
| "js_get (Arr xs) k = Inr (if k = ''length'' then Num (real (length xs)) else Undefined)"
| "js_get (Str s) k = Inr (if k = ''length'' then Num (real (length s)) else Undefined)"
| "js_get v k = Inr Undefined"

text \<open>Reading an element \<^verbatim>\<open>v[i]\<close> for an index literal \<open>i\<close>.\<close>

fun js_index :: "js \<Rightarrow> nat \<Rightarrow> js_error + js" where
  "js_index Undefined i = Inl TypeError"
| "js_index Null i = Inl TypeError"
| "js_index (Arr xs) i = Inr (if i < length xs then xs ! i else Undefined)"
| "js_index (Str s) i = Inr (if i < length s then Str [s ! i] else Undefined)"
| "js_index (Obj kvs) i = Inr (case map_of kvs (digits10 i) of Some v \<Rightarrow> v | None \<Rightarrow> Undefined)"
| "js_index v i = Inr Undefined"

text \<open>
  \<^verbatim>\<open>v.map(f)\<close>: only an array has a callable \<^verbatim>\<open>map\<close>; the callback runs on the elements
  from left to right and the first exception ends the call.
\<close>

fun map_throwing :: "('a \<Rightarrow> js_error + 'b) \<Rightarrow> 'a list \<Rightarrow> js_error + 'b list" where
  "map_throwing f [] = Inr []"
| "map_throwing f (x # xs) =
     bindE (f x) (\<lambda>y. bindE (map_throwing f xs) (\<lambda>ys. Inr (y # ys)))"

fun js_map :: "(js \<Rightarrow> js_error + 'b) \<Rightarrow> js \<Rightarrow> js_error + 'b list" where
  "js_map f (Arr xs) = map_throwing f xs"
| "js_map f v = Inl TypeError"

section \<open>getOSRMRoute\<close>

text \<open>
  \<^verbatim>\<open>
  async function getOSRMRoute(coordinates) {
      // coordinates: [[lat, lng], [lat, lng], ...]
      if (!coordinates || coordinates.length < 2) return null;
      const coordString = coordinates.map(c => `${c[1]},${c[0]}`).join(';');
      const url = `https://router.project-osrm.org/route/v1/driving/${coordString}?overview=full&geometries=geojson`;
      try {
          const response = await fetch(url);
          const data = await response.json();
          if (data.code === 'Ok' && data.routes && data.routes.length > 0) {
              const routeCoords = data.routes[0].geometry.coordinates.map(c => [c[1], c[0]]);
              return {
                  coordinates: routeCoords,
                  distance: data.routes[0].distance / 1000, // metre -> km
                  duration: data.routes[0].duration // saniye
              };
          }
      } catch (error) {
          console.error('OSRM routing error:', error);
      }
      return null;
  }
  \<close>
  The network is the parameter \<open>net\<close>: for the request it says whether \<^verbatim>\<open>fetch\<close> rejects,
  whether \<^verbatim>\<open>response.json()\<close> rejects, or which value the body parses to. The request is
  kept as the list of \<open>(c[1], c[0])\<close> pairs that \<^verbatim>\<open>coordString\<close> is printed from. A rejected
  promise is an exception at the \<^verbatim>\<open>await\<close>; the function's own result is \<open>Inl\<close> when its
  promise rejects and \<open>Inr None\<close> when it resolves to \<^verbatim>\<open>null\<close>.
\<close>

datatype fetch_result = FetchRejected | JsonRejected | Parsed js

type_synonym network = "(js \<times> js) list \<Rightarrow> fetch_result"

datatype console_entry = Console_error string js_error | Console_warn string

record osrm_route =
  route_coordinates :: "js list"
  route_distance :: js
  route_duration :: js

text \<open>
  The callback of line 198, \<^verbatim>\<open>c => `${c[1]},${c[0]}`\<close>: each substitution is read and
  converted to a string in turn.
\<close>

definition lng_lat :: "js \<Rightarrow> js_error + (js \<times> js)" where
  "lng_lat c =
     bindE (js_index c 1) (\<lambda>c1.
     bindE (ToString c1) (\<lambda>lng.
     bindE (js_index c 0) (\<lambda>c0.
     bindE (ToString c0) (\<lambda>lat. Inr (lng, lat)))))"

definition swap_pair :: "js \<Rightarrow> js_error + js" where
  "swap_pair c = bindE (js_index c 1) (\<lambda>c1. bindE (js_index c 0) (\<lambda>c0. Inr (Arr [c1, c0])))"

definition osrm_try :: "(js \<Rightarrow> real option) \<Rightarrow> fetch_result \<Rightarrow> js_error + osrm_route option" where
  "osrm_try conv response =
     (case response of
        FetchRejected \<Rightarrow> Inl FetchError
      | JsonRejected \<Rightarrow> Inl JsonSyntaxError
      | Parsed data \<Rightarrow>
          bindE (js_get data ''code'') (\<lambda>code.
          if code \<noteq> Str ''Ok'' then Inr None
          else bindE (js_get data ''routes'') (\<lambda>routes.
          if \<not> truthy routes then Inr None
          else bindE (js_get routes ''length'') (\<lambda>len.
               bindE (js_gt conv len 0) (\<lambda>some.
          if \<not> some then Inr None
          else bindE (js_index routes 0) (\<lambda>r0.
               bindE (js_get r0 ''geometry'') (\<lambda>geometry.
               bindE (js_get geometry ''coordinates'') (\<lambda>cs.
               bindE (js_map swap_pair cs) (\<lambda>routeCoords.
               bindE (js_get r0 ''distance'') (\<lambda>metres.
               bindE (js_div conv metres 1000) (\<lambda>km.
               bindE (js_get r0 ''duration'') (\<lambda>seconds.
               Inr (Some \<lparr>route_coordinates = routeCoords,
                          route_distance = km,
                          route_duration = seconds\<rparr>)))))))))))))"

definition getOSRMRoute ::
  "(js \<Rightarrow> real option) \<Rightarrow> network \<Rightarrow> js \<Rightarrow> console_entry list \<Rightarrow>
     (js_error + osrm_route option) \<times> console_entry list" where
  "getOSRMRoute conv net coordinates console =
     (if \<not> truthy coordinates then (Inr None, console)
      else case bindE (js_get coordinates ''length'') (\<lambda>len. js_lt conv len 2) of
        Inl e \<Rightarrow> (Inl e, console)
      | Inr short \<Rightarrow>
          if short then (Inr None, console)
          else (case js_map lng_lat coordinates of
            Inl e \<Rightarrow> (Inl e, console)
          | Inr coordString \<Rightarrow>
              (case osrm_try conv (net coordString) of
                 Inl err \<Rightarrow> (Inr None, console @ [Console_error ''OSRM routing error:'' err])
               | Inr result \<Rightarrow> (Inr result, console))))"

text \<open>
  The inputs of \<^verbatim>\<open>getOSRMRoute\<close>, by the comment at its head: a missing list
  (\<^verbatim>\<open>undefined\<close> or \<^verbatim>\<open>null\<close>) or an array of points. A point is in order when it is itself
  not missing and its two coordinates can be converted to strings.
\<close>

fun present :: "js \<Rightarrow> bool" where
  "present Undefined = False"
| "present Null = False"
| "present v = True"

definition point_ok :: "js \<Rightarrow> bool" where
  "point_ok c =
     (present c \<and>
      (case (js_index c 1, js_index c 0) of
         (Inr c1, Inr c0) \<Rightarrow> printable c1 \<and> printable c0
       | _ \<Rightarrow> False))"

fun coordinate_list :: "js \<Rightarrow> bool" where
  "coordinate_list Undefined = True"
| "coordinate_list Null = True"
| "coordinate_list (Arr xs) = list_all point_ok xs"
| "coordinate_list v = False"

text \<open>The request sent for the points \<open>xs\<close>: each point as \<open>(c[1], c[0])\<close>.\<close>

definition request_of :: "js list \<Rightarrow> (js \<times> js) list" where
  "request_of xs = (case map_throwing lng_lat xs of Inr ps \<Rightarrow> ps | Inl e \<Rightarrow> [])"

text \<open>A reply that contains no routes: the property is missing, \<^verbatim>\<open>null\<close> or an empty array.\<close>

definition no_routes :: "js \<Rightarrow> bool" where
  "no_routes data =
     (js_get data ''routes'' = Inr Undefined \<or> js_get data ''routes'' = Inr Null \<or>
      js_get data ''routes'' = Inr (Arr []))"

section \<open>drawOSRMRoute\<close>

text \<open>
  \<^verbatim>\<open>
  async function drawOSRMRoute(map, waypoints, color = '#3498db', weight = 5) {
      const route = await getOSRMRoute(waypoints);
      if (route && route.coordinates.length > 0) {
          const polyline = L.polyline(route.coordinates, {
              color: color, weight: weight, opacity: 0.8, smoothFactor: 1
          }).addTo(map);
          return { polyline, distance: route.distance, duration: route.duration };
      }
      // Fallback
      console.warn('OSRM failed, falling back to straight line');
      const polyline = L.polyline(waypoints, {
          color: color, weight: weight, opacity: 0.6, dashArray: '10, 10'
      }).addTo(map);
      return { polyline, distance: null, duration: null };
  }
  \<close>
  \<^verbatim>\<open>L\<close> is the Leaflet library, which is not part of the repository. Its model is the
  documented behaviour of \<^verbatim>\<open>L.polyline(latlngs, options)\<close> on a flat array: a layer is
  created when every element is an array that starts with two finite numbers, and the
  constructor throws otherwise; \<^verbatim>\<open>addTo(map)\<close> appends the layer to the map's layers and
  returns the layer. The map is the list of its layers.
\<close>

record polyline_options =
  opt_color :: js
  opt_weight :: js
  opt_opacity :: real
  opt_smoothFactor :: "real option"
  opt_dashArray :: "string option"

record polyline =
  latlngs :: "js list"
  options :: polyline_options

fun latlng_pair :: "js \<Rightarrow> bool" where
  "latlng_pair (Arr (Num lat # Num lng # rest)) = True"
| "latlng_pair v = False"

definition L_polyline :: "js \<Rightarrow> polyline_options \<Rightarrow> js_error + polyline" where
  "L_polyline points opts =
     (case points of
        Arr xs \<Rightarrow> if list_all latlng_pair xs then Inr \<lparr>latlngs = xs, options = opts\<rparr> else Inl TypeError
      | _ \<Rightarrow> Inl TypeError)"

record drawn_route =
  drawn_polyline :: polyline
  drawn_distance :: js
  drawn_duration :: js

definition default_param :: "js \<Rightarrow> js \<Rightarrow> js" where
  "default_param v d = (if v = Undefined then d else v)"

definition drawOSRMRoute ::
  "(js \<Rightarrow> real option) \<Rightarrow> network \<Rightarrow> polyline list \<Rightarrow> js \<Rightarrow> js \<Rightarrow> js \<Rightarrow> console_entry list \<Rightarrow>
     (js_error + drawn_route) \<times> polyline list \<times> console_entry list" where
  "drawOSRMRoute conv net map_layers waypoints color0 weight0 console =
     (let color = default_param color0 (Str ''#3498db'');
          weight = default_param weight0 (Num 5)
      in case getOSRMRoute conv net waypoints console of
           (Inl e, console1) \<Rightarrow> (Inl e, map_layers, console1)
         | (Inr route, console1) \<Rightarrow>
             (case (case route of None \<Rightarrow> None
                               | Some r \<Rightarrow> if route_coordinates r \<noteq> [] then Some r else None) of
                Some r \<Rightarrow>
                  (case L_polyline (Arr (route_coordinates r))
                          \<lparr>opt_color = color, opt_weight = weight, opt_opacity = 0.8,
                           opt_smoothFactor = Some 1, opt_dashArray = None\<rparr> of
                     Inl e \<Rightarrow> (Inl e, map_layers, console1)
                   | Inr polyline \<Rightarrow>
                       (Inr \<lparr>drawn_polyline = polyline,
                             drawn_distance = route_distance r,
                             drawn_duration = route_duration r\<rparr>,
                        map_layers @ [polyline], console1))
              | None \<Rightarrow>
                  (let console2 = console1 @ [Console_warn ''OSRM failed, falling back to straight line'']
                   in case L_polyline waypoints
                          \<lparr>opt_color = color, opt_weight = weight, opt_opacity = 0.6,
                           opt_smoothFactor = None, opt_dashArray = Some ''10, 10''\<rparr> of
                     Inl e \<Rightarrow> (Inl e, map_layers, console2)
                   | Inr polyline \<Rightarrow>
                       (Inr \<lparr>drawn_polyline = polyline,
                             drawn_distance = Null,
                             drawn_duration = Null\<rparr>,
                        map_layers @ [polyline], console2))))"

text \<open>
  A waypoint list is an array of \<open>[lat, lng]\<close> number pairs. The fallback's layer is the
  dashed line through the waypoints themselves, and OSRM is unavailable for a request
  when the fetch or the parse is rejected, or the reply is not \<^verbatim>\<open>'Ok'\<close> or has no routes.
\<close>

fun waypoint_list :: "js \<Rightarrow> bool" where
  "waypoint_list (Arr xs) = list_all latlng_pair xs"
| "waypoint_list v = False"

definition straight_line :: "js list \<Rightarrow> js \<Rightarrow> js \<Rightarrow> polyline" where
  "straight_line xs color0 weight0 =
     \<lparr>latlngs = xs,
      options = \<lparr>opt_color = default_param color0 (Str ''#3498db''),
                 opt_weight = default_param weight0 (Num 5),
                 opt_opacity = 0.6, opt_smoothFactor = None, opt_dashArray = Some ''10, 10''\<rparr>\<rparr>"

definition osrm_unavailable :: "network \<Rightarrow> js list \<Rightarrow> bool" where
  "osrm_unavailable net xs =
     (case net (request_of xs) of
        FetchRejected \<Rightarrow> True
      | JsonRejected \<Rightarrow> True
      | Parsed data \<Rightarrow> js_get data ''code'' \<noteq> Inr (Str ''Ok'') \<or> no_routes data)"

text \<open>
  The estimate the specification's fallback policy names: the direct Haversine distance
  scaled by the road factor 1.35. No function of the script computes it; the definition
  follows the specification's words and serves to compare the fallback's result with.
\<close>

definition road_factor :: real where
  "road_factor = 1.35"

definition haversine_road_estimate :: "engine \<Rightarrow> real \<Rightarrow> real \<Rightarrow> real \<Rightarrow> real \<Rightarrow> js" where
  "haversine_road_estimate eng lat1 lon1 lat2 lon2 =
     (case haversineDistance eng lat1 lon1 lat2 lon2 of
        Some d \<Rightarrow> Num (fmul eng road_factor d)
      | None \<Rightarrow> NaN)"

section \<open>The optimisation core, from the specification\<close>

text \<open>
  The script above is the browser side of the system. The route-and-load optimisation
  engine (\<^verbatim>\<open>algorithms/genetic_algorithm.py\<close>, \<^verbatim>\<open>algorithms/distance_calculator.py\<close>) is
  named by the repository's README but is not among its sources. The definitions of this
  section are written from the specification's description of it.
\<close>

subsection \<open>Data model\<close>

text \<open>
  Modelled from the spec: the Cargo record of the data model (identifier, destination
  station, weight in whole kg, priority), with the fields the selector and the optimiser
  read; the Python class is missing.
\<close>

record cargo =
  cargo_id :: nat
  destination :: nat
  weight_kg :: nat
  priority :: nat

text \<open>
  Modelled from the spec: the Vehicle record of the data model (identifier, capacity in
  kg, cost per distance unit, rental flag, fixed daily fee of a rental vehicle); the
  Python class is missing.
\<close>

record vehicle =
  vehicle_id :: nat
  capacity_kg :: nat
  cost_per_km :: real
  is_rental :: bool
  daily_fee :: real

text \<open>Modelled from the spec: the total weight of a list of cargo (the selector is missing).\<close>

definition total_weight :: "cargo list \<Rightarrow> nat" where
  "total_weight cs = sum_list (map weight_kg cs)"

text \<open>Modelled from the spec: the total priority value of a list of cargo (the selector is missing).\<close>

definition total_priority :: "cargo list \<Rightarrow> nat" where
  "total_priority cs = sum_list (map priority cs)"

text \<open>
  Modelled from the spec: the combined capacity of the base (non-rental) fleet (the
  selector is missing).
\<close>

definition base_capacity :: "vehicle list \<Rightarrow> nat" where
  "base_capacity fleet = sum_list (map capacity_kg (filter (\<lambda>v. \<not> is_rental v) fleet))"

text \<open>
  Modelled from the spec: the combined capacity of the base fleet plus the rental vehicle
  when the fleet includes one (the selector is missing).
\<close>

definition fleet_capacity :: "vehicle list \<Rightarrow> nat" where
  "fleet_capacity fleet = sum_list (map capacity_kg fleet)"

subsection \<open>Capacity Selector\<close>

text \<open>
  Modelled from the spec: one cargo item's pass over the table of the knapsack's dynamic
  programme, "updating from high weight to low weight": for \<open>w\<close> from the capacity down to
  the item's weight, \<open>table[w] := max(table[w], table[w - weight] + priority)\<close>, in place.
  The Python loop is missing.
\<close>

fun relax_down :: "cargo \<Rightarrow> nat list \<Rightarrow> nat \<Rightarrow> nat list" where
  "relax_down c table 0 =
     (if weight_kg c = 0 then table[0 := max (table ! 0) (table ! 0 + priority c)] else table)"
| "relax_down c table (Suc w) =
     (if Suc w < weight_kg c then table
      else relax_down c
             (table[Suc w := max (table ! Suc w) (table ! (Suc w - weight_kg c) + priority c)]) w)"

text \<open>
  Modelled from the spec: the table "built by iterating cargo items", each state of it
  kept for the back-tracking. The argument lists the items processed so far, the latest
  first; the result lists the table after each of them, the latest first, down to the
  initial table of zeros for the weights \<open>0..cap\<close>. The Python loop is missing.
\<close>

fun rows :: "nat \<Rightarrow> cargo list \<Rightarrow> nat list list" where
  "rows cap [] = [replicate (Suc cap) 0]"
| "rows cap (c # processed) = relax_down c (hd (rows cap processed)) cap # rows cap processed"

text \<open>
  Modelled from the spec: "final selection reconstructed by back-tracking chosen items":
  from the last item to the first, an item was chosen when its pass changed the table at
  the current weight, and the weight then drops by the item's. The result is the chosen
  items and the items left out. The Python loop is missing.
\<close>

fun backtrack :: "cargo list \<Rightarrow> nat list list \<Rightarrow> nat \<Rightarrow> cargo list \<times> cargo list" where
  "backtrack (c # processed) (row # prev # older) w =
     (if row ! w \<noteq> prev ! w
      then (case backtrack processed (prev # older) (w - weight_kg c) of
              (chosen, left) \<Rightarrow> (c # chosen, left))
      else (case backtrack processed (prev # older) w of
              (chosen, left) \<Rightarrow> (chosen, c # left)))"
| "backtrack processed table w = ([], [])"

text \<open>
  Modelled from the spec: the knapsack of the Capacity Selector, the cargo items iterated
  in their order and the selection read back; the Python function is missing.
\<close>

definition knapsack :: "cargo list \<Rightarrow> nat \<Rightarrow> cargo list \<times> cargo list" where
  "knapsack cargos cap =
     (case backtrack (rev cargos) (rows cap (rev cargos)) cap of
        (chosen, left) \<Rightarrow> (rev chosen, rev left))"

text \<open>
  Modelled from the spec: the contract \<^verbatim>\<open>select(cargos, fleet) -> (selected, deferred)\<close>:
  all cargo is selected when its total weight is within the base fleet's capacity, and
  otherwise the knapsack is solved for the capacity of the base fleet plus the rental
  vehicle. The Python function is missing.
\<close>

definition select :: "cargo list \<Rightarrow> vehicle list \<Rightarrow> cargo list \<times> cargo list" where
  "select cargos fleet =
     (if total_weight cargos \<le> base_capacity fleet then (cargos, [])
      else knapsack cargos (fleet_capacity fleet))"

text \<open>
  Modelled from the spec: what \<open>table[w]\<close> is to hold, "max priority value achievable with
  total weight \<open>\<le> w\<close>", as the recurrence over the items; it states the meaning of a row in
  the proofs and is not part of the selector.
\<close>

fun opt :: "cargo list \<Rightarrow> nat \<Rightarrow> nat" where
  "opt [] w = 0"
| "opt (c # cs) w =
     (if weight_kg c \<le> w then max (opt cs w) (opt cs (w - weight_kg c) + priority c) else opt cs w)"

subsection \<open>Route Optimizer\<close>

text \<open>
  Modelled from the spec: the configuration value of the genetic algorithm (population
  size, generation cap, elite count, mutation and crossover rates, penalty per kg of
  capacity violation); the Python constants are missing.
\<close>

record ga_config =
  population_size :: nat
  generations :: nat
  elite_count :: nat
  mutation_rate :: real
  crossover_rate :: real
  penalty_per_kg :: real

text \<open>
  Modelled from the spec: the defaults the specification and the README give (population
  100, 500 generations, 10 elites, mutation 0.1, crossover 0.8); the penalty is "large".
\<close>

definition default_config :: ga_config where
  "default_config =
     \<lparr>population_size = 100, generations = 500, elite_count = 10,
      mutation_rate = 0.1, crossover_rate = 0.8, penalty_per_kg = 1000\<rparr>"

text \<open>
  Modelled from the spec: a candidate solution, "one ordered delivery sequence per
  available vehicle", the sequences in the order of the fleet.
\<close>

type_synonym individual = "cargo list list"

text \<open>
  Modelled from the spec: the length of a stop sequence under the Distance Oracle
  \<open>road_km\<close>, which is a parameter (station ids to km).
\<close>

fun path_length :: "(nat \<Rightarrow> nat \<Rightarrow> real) \<Rightarrow> nat list \<Rightarrow> real" where
  "path_length road_km (a # b # rest) = road_km a b + path_length road_km (b # rest)"
| "path_length road_km stops = 0"

text \<open>
  Modelled from the spec: a route's "ordered sequence of station stops (depot\<dots>depot)":
  the depot, the destinations of the deliveries in their order, the depot.
\<close>

definition route_stops :: "nat \<Rightarrow> cargo list \<Rightarrow> nat list" where
  "route_stops depot deliveries = depot # map destination deliveries @ [depot]"

text \<open>Modelled from the spec: a route's total distance.\<close>

definition route_length :: "(nat \<Rightarrow> nat \<Rightarrow> real) \<Rightarrow> nat \<Rightarrow> cargo list \<Rightarrow> real" where
  "route_length road_km depot deliveries = path_length road_km (route_stops depot deliveries)"

text \<open>
  Modelled from the spec: one vehicle's share of the fitness: "route distance \<open>\<times>\<close> vehicle
  cost-per-distance, plus rental fixed fee if used" ("a vehicle with no assigned cargo
  yields no route"), "plus a large penalty added per kg of capacity violation".
\<close>

definition route_cost ::
  "ga_config \<Rightarrow> (nat \<Rightarrow> nat \<Rightarrow> real) \<Rightarrow> nat \<Rightarrow> vehicle \<Rightarrow> cargo list \<Rightarrow> real" where
  "route_cost cfg road_km depot v deliveries =
     (if deliveries = [] then 0
      else route_length road_km depot deliveries * cost_per_km v +
           (if is_rental v then daily_fee v else 0)) +
     penalty_per_kg cfg * real (total_weight deliveries - capacity_kg v)"

text \<open>Modelled from the spec: the fitness of a candidate, the sum over its routes; lower is better.\<close>

definition fitness ::
  "ga_config \<Rightarrow> (nat \<Rightarrow> nat \<Rightarrow> real) \<Rightarrow> nat \<Rightarrow> vehicle list \<Rightarrow> individual \<Rightarrow> real" where
  "fitness cfg road_km depot fleet ind =
     sum_list (map (\<lambda>(v, deliveries). route_cost cfg road_km depot v deliveries) (zip fleet ind))"

text \<open>
  Modelled from the spec: "reverse a contiguous sub-sequence of stops": the \<open>n\<close> stops from
  position \<open>i\<close> on, reversed in place.
\<close>

definition reverse_segment :: "nat \<Rightarrow> nat \<Rightarrow> 'a list \<Rightarrow> 'a list" where
  "reverse_segment i n xs = take i xs @ rev (take n (drop i xs)) @ drop (i + n) xs"

text \<open>Modelled from the spec: every reversal of a contiguous sub-sequence of two or more stops.\<close>

definition reversals :: "'a list \<Rightarrow> 'a list list" where
  "reversals xs =
     concat (map (\<lambda>i. map (\<lambda>n. reverse_segment i n xs) [2..<Suc (length xs - i)]) [0..<length xs])"

text \<open>
  Modelled from the spec: 2-opt on one route: "repeatedly reverse a contiguous
  sub-sequence of stops if doing so strictly reduces that route's distance, until no
  improving reversal exists". The first improving reversal found is taken. The Python
  function is missing.
\<close>

function two_opt :: "(nat \<Rightarrow> nat \<Rightarrow> real) \<Rightarrow> nat \<Rightarrow> cargo list \<Rightarrow> cargo list" where
  "two_opt road_km depot deliveries =
     (case find (\<lambda>shorter. route_length road_km depot shorter < route_length road_km depot deliveries)
             (reversals deliveries) of
        None \<Rightarrow> deliveries
      | Some shorter \<Rightarrow> two_opt road_km depot shorter)"
  by pat_completeness auto

text \<open>
  The loop ends: every step moves to a strictly shorter order of the same deliveries, and
  these orders are finitely many. The measure is the number of orders shorter than the
  current one.
\<close>

definition shorter_orders :: "(nat \<Rightarrow> nat \<Rightarrow> real) \<Rightarrow> nat \<Rightarrow> cargo list \<Rightarrow> cargo list set" where
  "shorter_orders road_km depot xs =
     {ys. mset ys = mset xs \<and> route_length road_km depot ys < route_length road_km depot xs}"

lemma mset_reverse_segment: "mset (reverse_segment i n xs) = mset xs"
proof -
  have "mset (take i xs) + (mset (take n (drop i xs)) + mset (drop n (drop i xs))) = mset xs"
    by (metis append_take_drop_id mset_append)
  then show ?thesis
    unfolding reverse_segment_def by (simp add: add.commute)
qed

lemma reversals_mset: "ys \<in> set (reversals xs) \<Longrightarrow> mset ys = mset xs"
  by (auto simp: reversals_def mset_reverse_segment)

lemma finite_rearrangements: "finite {ys. mset ys = mset xs}"
proof -
  have "{ys. mset ys = mset xs} \<subseteq> {ys. set ys \<subseteq> set xs \<and> length ys = length xs}"
    by (auto dest: mset_eq_setD mset_eq_length)
  moreover have "finite {ys. set ys \<subseteq> set xs \<and> length ys = length xs}"
    by (rule finite_lists_length_eq) simp
  ultimately show ?thesis
    by (rule finite_subset)
qed

lemma shorter_orders_decrease:
  assumes "mset ys = mset xs" and "route_length road_km depot ys < route_length road_km depot xs"
  shows "card (shorter_orders road_km depot ys) < card (shorter_orders road_km depot xs)"
proof (rule psubset_card_mono)
  show "finite (shorter_orders road_km depot xs)"
    unfolding shorter_orders_def using finite_rearrangements [of xs] by simp
  have "shorter_orders road_km depot ys \<subseteq> shorter_orders road_km depot xs"
    using assms by (auto simp: shorter_orders_def)
  moreover have "ys \<in> shorter_orders road_km depot xs" "ys \<notin> shorter_orders road_km depot ys"
    using assms by (simp_all add: shorter_orders_def)
  ultimately show "shorter_orders road_km depot ys \<subset> shorter_orders road_km depot xs"
    by blast
qed

termination two_opt
proof (relation "measure (\<lambda>(road_km, depot, xs). card (shorter_orders road_km depot xs))")
  show "wf (measure (\<lambda>(road_km, depot, xs). card (shorter_orders road_km depot xs)))"
    by simp
next
  fix road_km depot deliveries shorter
  assume f: "find (\<lambda>shorter. route_length road_km depot shorter < route_length road_km depot deliveries)
             (reversals deliveries) = Some shorter"
  then have "shorter \<in> set (reversals deliveries)"
    and lt: "route_length road_km depot shorter < route_length road_km depot deliveries"
    by (auto simp: find_Some_iff)
  then have "mset shorter = mset deliveries"
    by (simp add: reversals_mset)
  from shorter_orders_decrease [OF this lt]
  show "((road_km, depot, shorter), (road_km, depot, deliveries))
          \<in> measure (\<lambda>(road_km, depot, xs). card (shorter_orders road_km depot xs))"
    by simp
qed

declare two_opt.simps [simp del]

text \<open>
  Modelled from the spec: the population ranked by fitness, best first (the Python sort
  is missing).
\<close>

definition ranked ::
  "ga_config \<Rightarrow> (nat \<Rightarrow> nat \<Rightarrow> real) \<Rightarrow> nat \<Rightarrow> vehicle list \<Rightarrow> individual list \<Rightarrow> individual list" where
  "ranked cfg road_km depot fleet pop = sort_key (fitness cfg road_km depot fleet) pop"

text \<open>Modelled from the spec: elitism's "top individuals by fitness", as many as the configuration says.\<close>

definition elites ::
  "ga_config \<Rightarrow> (nat \<Rightarrow> nat \<Rightarrow> real) \<Rightarrow> nat \<Rightarrow> vehicle list \<Rightarrow> individual list \<Rightarrow> individual list" where
  "elites cfg road_km depot fleet pop = take (elite_count cfg) (ranked cfg road_km depot fleet pop)"

text \<open>
  Modelled from the spec: the next population: the elites "carried unchanged", then the
  offspring. Tournament selection, crossover and mutation are the parameter \<open>breed\<close>, which
  is given the generator's state, the population and the number of offspring wanted and
  returns the offspring and the generator's new state; the specification does not fix
  these operators and the Python code is missing.
\<close>

definition next_population ::
  "('rng \<Rightarrow> individual list \<Rightarrow> nat \<Rightarrow> individual list \<times> 'rng) \<Rightarrow>
   ga_config \<Rightarrow> (nat \<Rightarrow> nat \<Rightarrow> real) \<Rightarrow> nat \<Rightarrow> vehicle list \<Rightarrow>
   individual list \<times> 'rng \<Rightarrow> individual list \<times> 'rng" where
  "next_population breed cfg road_km depot fleet state =
     (case state of (pop, rng) \<Rightarrow>
        let carried = elites cfg road_km depot fleet pop
        in case breed rng pop (population_size cfg - length carried) of
             (offspring, rng') \<Rightarrow> (carried @ offspring, rng'))"

text \<open>Modelled from the spec: local refinement of one individual: 2-opt on each of its routes.\<close>

definition refine_individual :: "(nat \<Rightarrow> nat \<Rightarrow> real) \<Rightarrow> nat \<Rightarrow> individual \<Rightarrow> individual" where
  "refine_individual road_km depot ind = map (two_opt road_km depot) ind"

text \<open>
  Modelled from the spec: local refinement "applied to the elite individuals' routes":
  the elites are the first of the new population.
\<close>

definition refine_elites ::
  "ga_config \<Rightarrow> (nat \<Rightarrow> nat \<Rightarrow> real) \<Rightarrow> nat \<Rightarrow> individual list \<Rightarrow> individual list" where
  "refine_elites cfg road_km depot pop =
     map (refine_individual road_km depot) (take (elite_count cfg) pop) @ drop (elite_count cfg) pop"

text \<open>
  Modelled from the spec: one generation of the evolutionary loop: steps 2 to 5 (the next
  population), then step 6 (refinement of the elites).
\<close>

definition generation ::
  "('rng \<Rightarrow> individual list \<Rightarrow> nat \<Rightarrow> individual list \<times> 'rng) \<Rightarrow>
   ga_config \<Rightarrow> (nat \<Rightarrow> nat \<Rightarrow> real) \<Rightarrow> nat \<Rightarrow> vehicle list \<Rightarrow>
   individual list \<times> 'rng \<Rightarrow> individual list \<times> 'rng" where
  "generation breed cfg road_km depot fleet state =
     (case next_population breed cfg road_km depot fleet state of
        (pop, rng) \<Rightarrow> (refine_elites cfg road_km depot pop, rng))"

text \<open>Modelled from the spec: the state of the loop after \<open>n\<close> generations.\<close>

fun evolve ::
  "('rng \<Rightarrow> individual list \<Rightarrow> nat \<Rightarrow> individual list \<times> 'rng) \<Rightarrow>
   ga_config \<Rightarrow> (nat \<Rightarrow> nat \<Rightarrow> real) \<Rightarrow> nat \<Rightarrow> vehicle list \<Rightarrow>
   nat \<Rightarrow> individual list \<times> 'rng \<Rightarrow> individual list \<times> 'rng" where
  "evolve breed cfg road_km depot fleet 0 state = state"
| "evolve breed cfg road_km depot fleet (Suc n) state =
     generation breed cfg road_km depot fleet (evolve breed cfg road_km depot fleet n state)"

text \<open>Modelled from the spec: the best-individual fitness of a population.\<close>

definition best_fitness ::
  "ga_config \<Rightarrow> (nat \<Rightarrow> nat \<Rightarrow> real) \<Rightarrow> nat \<Rightarrow> vehicle list \<Rightarrow> individual list \<Rightarrow> real" where
  "best_fitness cfg road_km depot fleet pop = Min (set (map (fitness cfg road_km depot fleet) pop))"

section \<open>Sample inputs\<close>

text \<open>
  Two waypoints out of the script's district table (\<^verbatim>\<open>KOCAELI_DISTRICTS\<close>: Izmit and
  Gebze), a reply of the routing service for them, a number conversion that knows no
  string, and a network on which every fetch is rejected.
\<close>

definition izmit_gebze :: "js list" where
  "izmit_gebze = [Arr [Num 40.7656, Num 29.9406], Arr [Num 40.8027, Num 29.4307]]"

definition sample_route :: js where
  "sample_route =
     Obj [(''geometry'', Obj [(''coordinates'',
             Arr [Arr [Num 29.9406, Num 40.7656], Arr [Num 29.4307, Num 40.8027]])]),
          (''distance'', Num 51234.5),
          (''duration'', Num 2800)]"

definition sample_reply :: js where
  "sample_reply = Obj [(''code'', Str ''Ok''), (''routes'', Arr [sample_route])]"

definition no_conv :: "js \<Rightarrow> real option" where
  "no_conv v = None"

definition offline :: network where
  "offline request = FetchRejected"

text \<open>
  A small day for the optimisation core: one base vehicle of 5 kg and a rental vehicle of
  3 kg, four cargo items of 14 kg in all, stations on a line (the distance between two
  stations is the difference of their numbers), a population of two candidates, and a
  breeding step that copies the last candidate.
\<close>

definition sample_fleet :: "vehicle list" where
  "sample_fleet =
     [\<lparr>vehicle_id = 1, capacity_kg = 5, cost_per_km = 1, is_rental = False, daily_fee = 0\<rparr>,
      \<lparr>vehicle_id = 2, capacity_kg = 3, cost_per_km = 1, is_rental = True, daily_fee = 200\<rparr>]"

definition sample_cargos :: "cargo list" where
  "sample_cargos =
     [\<lparr>cargo_id = 1, destination = 2, weight_kg = 4, priority = 5\<rparr>,
      \<lparr>cargo_id = 2, destination = 3, weight_kg = 3, priority = 4\<rparr>,
      \<lparr>cargo_id = 3, destination = 4, weight_kg = 5, priority = 7\<rparr>,
      \<lparr>cargo_id = 4, destination = 2, weight_kg = 2, priority = 1\<rparr>]"

definition line_km :: "nat \<Rightarrow> nat \<Rightarrow> real" where
  "line_km a b = \<bar>real a - real b\<bar>"

definition sample_config :: ga_config where
  "sample_config =
     \<lparr>population_size = 2, generations = 1, elite_count = 1,
      mutation_rate = 0.1, crossover_rate = 0.8, penalty_per_kg = 1000\<rparr>"

definition sample_population :: "individual list" where
  "sample_population =
     [[[sample_cargos ! 2, sample_cargos ! 1], []],
      [[sample_cargos ! 2], [sample_cargos ! 1]]]"

definition copy_last :: "nat \<Rightarrow> individual list \<Rightarrow> nat \<Rightarrow> individual list \<times> nat" where
  "copy_last rng pop n = (replicate n (last pop), Suc rng)"

section \<open>Properties of haversineDistance\<close>

subsection \<open>On real numbers\<close>

lemma haversine_a_exact:
  "haversine_a exact_engine lat1 lon1 lat2 lon2 =
     hav (radians lat2 - radians lat1) +
     cos (radians lat1) * cos (radians lat2) * hav (radians lon2 - radians lon1)"
  by (simp add: haversine_a_def exact_engine_def fadd_def fsub_def fmul_def fdiv_def
      hav_def radians_def power2_eq_square algebra_simps diff_divide_distrib)

lemma hav_cos: "hav t = (1 - cos t) / 2"
  using cos_double_sin [of "t / 2"] by (simp add: hav_def)

lemma hav_nonneg: "0 \<le> hav t"
  by (simp add: hav_def)

lemma hav_le_1: "hav t \<le> 1"
  using cos_ge_minus_one [of t] by (simp add: hav_cos)

lemma cos_prod: "cos x * cos y = (cos (x - y) + cos (x + y)) / (2::real)"
  by (simp add: cos_add cos_diff)

lemma hav_sum_twice:
  "2 * (hav (y - x) + cos x * cos y * hav l) =
     (1 - cos (x - y)) * (1 - hav l) + hav l * (1 + cos (x + y))"
proof -
  have "cos (y - x) = cos (x - y)"
    using cos_minus [of "x - y"] by simp
  then show ?thesis
    by (simp add: hav_cos [of "y - x"] cos_prod field_simps)
qed

lemma hav_sum_nonneg: "0 \<le> hav (y - x) + cos x * cos y * hav l"
proof -
  have "0 \<le> (1 - cos (x - y)) * (1 - hav l)"
    using cos_le_one [of "x - y"] hav_le_1 [of l] by (intro mult_nonneg_nonneg) simp_all
  moreover have "0 \<le> hav l * (1 + cos (x + y))"
    using cos_ge_minus_one [of "x + y"] hav_nonneg [of l] by (intro mult_nonneg_nonneg) linarith+
  ultimately have "0 \<le> (1 - cos (x - y)) * (1 - hav l) + hav l * (1 + cos (x + y))"
    by (rule add_nonneg_nonneg)
  then have "0 \<le> 2 * (hav (y - x) + cos x * cos y * hav l)"
    by (simp only: hav_sum_twice)
  then show ?thesis
    by simp
qed

lemma hav_sum_le_1: "hav (y - x) + cos x * cos y * hav l \<le> 1"
proof -
  have eq: "2 * (1 - (hav (y - x) + cos x * cos y * hav l)) =
      (1 + cos (x - y)) * (1 - hav l) + hav l * (1 - cos (x + y))"
    using hav_sum_twice [of y x l] by (simp add: algebra_simps)
  have "0 \<le> (1 + cos (x - y)) * (1 - hav l)"
    using cos_ge_minus_one [of "x - y"] hav_le_1 [of l] by (intro mult_nonneg_nonneg) linarith+
  moreover have "0 \<le> hav l * (1 - cos (x + y))"
    using cos_le_one [of "x + y"] hav_nonneg [of l] by (intro mult_nonneg_nonneg) simp_all
  ultimately have "0 \<le> (1 + cos (x - y)) * (1 - hav l) + hav l * (1 - cos (x + y))"
    by (rule add_nonneg_nonneg)
  then have "0 \<le> 2 * (1 - (hav (y - x) + cos x * cos y * hav l))"
    by (simp only: eq)
  then show ?thesis
    by simp
qed

lemma haversine_a_exact_range:
  "0 \<le> haversine_a exact_engine lat1 lon1 lat2 lon2"
  "haversine_a exact_engine lat1 lon1 lat2 lon2 \<le> 1"
  by (simp_all add: haversine_a_exact hav_sum_nonneg hav_sum_le_1)

lemma atan2_sqrt_arcsin:
  assumes "0 \<le> a" "a \<le> 1"
  shows "atan2 (sqrt a) (sqrt (1 - a)) = arcsin (sqrt a)"
proof (cases "a = 1")
  case True
  then show ?thesis by (simp add: atan2_def)
next
  case False
  with assms have lt: "a < 1" by simp
  then have pos: "0 < sqrt (1 - a)" by simp
  have s1: "sqrt a < 1"
    using lt assms(1) by (simp add: real_sqrt_lt_1_iff)
  have s0: "- 1 < sqrt a"
    using real_sqrt_ge_zero [OF assms(1)] by linarith
  have "arcsin (sqrt a) = arctan (sqrt a / sqrt (1 - (sqrt a)\<^sup>2))"
    using arcsin_arctan [OF s0 s1] .
  also have "(sqrt a)\<^sup>2 = a"
    using assms(1) by simp
  finally show ?thesis
    using pos by (simp add: atan2_def)
qed

text \<open>
  Without rounding the source is the Haversine formula: on the exact engine neither
  square root is NaN, and the result is the great-circle distance on a sphere of radius
  6371 km.
\<close>

lemma haversineDistance_exact:
  "haversineDistance exact_engine lat1 lon1 lat2 lon2 =
     Some (great_circle_km 6371 lat1 lon1 lat2 lon2)"
proof -
  let ?a = "haversine_a exact_engine lat1 lon1 lat2 lon2"
  have r: "0 \<le> ?a" "?a \<le> 1"
    by (rule haversine_a_exact_range)+
  then have "haversineDistance exact_engine lat1 lon1 lat2 lon2 =
      Some (6371 * (2 * atan2 (sqrt ?a) (sqrt (1 - ?a))))"
    by (simp add: haversineDistance_def Math_sqrt_def Let_def exact_engine_def fsub_def fmul_def)
  also have "atan2 (sqrt ?a) (sqrt (1 - ?a)) = arcsin (sqrt ?a)"
    using r by (rule atan2_sqrt_arcsin)
  finally show ?thesis
    by (simp add: great_circle_km_def haversine_a_exact)
qed

subsection \<open>On doubles\<close>

lemma pow2_powr: "pow2 k = 2 powr (of_int k)"
  by (simp add: pow2_def powr_real_of_int)

lemma binade_eq:
  assumes "pow2 k \<le> \<bar>x\<bar>" "\<bar>x\<bar> < pow2 (k + 1)"
  shows "binade x = k"
proof -
  have "0 < pow2 k" by (simp add: pow2_powr)
  with assms(1) have pos: "0 < \<bar>x\<bar>" by linarith
  show ?thesis
    unfolding binade_def
    using assms floor_log_eq_powr_iff [OF pos, of 2 k]
    by (simp add: pow2_powr)
qed

lemma double_round_eval:
  assumes "pow2 k \<le> \<bar>x\<bar>" "\<bar>x\<bar> < pow2 (k + 1)" and "rne (x / pow2 (k - 52)) = n"
  shows "double_round x = of_int n * pow2 (k - 52)"
proof -
  have "0 < pow2 k" by (simp add: pow2_powr)
  with assms(1) have "x \<noteq> 0" by auto
  then show ?thesis
    using binade_eq [OF assms(1,2)] assms(3) by (simp add: double_round_def)
qed

text \<open>
  The roundings that the call \<^verbatim>\<open>haversineDistance(8, 0, -8, 180)\<close> performs, one lemma for
  each exact result: the binade \<open>k\<close> and the rounded multiple \<open>n\<close> of \<open>2\<^sup>k\<^sup>-\<^sup>5\<^sup>2\<close> are given,
  and \<open>double_round_eval\<close> checks them.
\<close>

lemma double_step_1:
  assumes "x = - 16"
  shows "double_round x = - 16"
  unfolding assms
  using double_round_eval [where x = "- 16" and k = "4" and n = "-4503599627370496"]
  by (simp add: pow2_def rne_def Let_def)

lemma double_step_2:
  assumes "x = - (884279719003555 / 2 ^ 44)"
  shows "double_round x = - (884279719003555 / 2 ^ 44)"
  unfolding assms
  using double_round_eval [where x = "- (884279719003555 / 2 ^ 44)" and k = "5" and n = "-7074237752028440"]
  by (simp add: pow2_def rne_def Let_def)

lemma double_step_3:
  assumes "x = - (176855943800711 / 633318697598976)"
  shows "double_round x = - (5030569068109113 / 2 ^ 54)"
  unfolding assms
  using double_round_eval [where x = "- (176855943800711 / 633318697598976)" and k = "-2" and n = "-5030569068109113"]
  by (simp add: pow2_def rne_def Let_def)

lemma double_step_4:
  assumes "x = 180"
  shows "double_round x = 180"
  unfolding assms
  using double_round_eval [where x = "180" and k = "7" and n = "6333186975989760"]
  by (simp add: pow2_def rne_def Let_def)

lemma double_step_5:
  assumes "x = 39792587355159975 / 2 ^ 46"
  shows "double_round x = 4974073419394997 / 2 ^ 43"
  unfolding assms
  using double_round_eval [where x = "39792587355159975 / 2 ^ 46" and k = "9" and n = "4974073419394997"]
  by (simp add: pow2_def rne_def Let_def)

lemma double_step_6:
  assumes "x = 4974073419394997 / 1583296743997440"
  shows "double_round x = 884279719003555 / 2 ^ 48"
  unfolding assms
  using double_round_eval [where x = "4974073419394997 / 1583296743997440" and k = "1" and n = "7074237752028440"]
  by (simp add: pow2_def rne_def Let_def)

lemma double_step_7:
  assumes "x = - (5030569068109113 / 2 ^ 55)"
  shows "double_round x = - (5030569068109113 / 2 ^ 55)"
  unfolding assms
  using double_round_eval [where x = "- (5030569068109113 / 2 ^ 55)" and k = "-3" and n = "-5030569068109113"]
  by (simp add: pow2_def rne_def Let_def)

lemma double_step_8:
  assumes "x = 884279719003555 / 2 ^ 49"
  shows "double_round x = 884279719003555 / 2 ^ 49"
  unfolding assms
  using double_round_eval [where x = "884279719003555 / 2 ^ 49" and k = "0" and n = "7074237752028440"]
  by (simp add: pow2_def rne_def Let_def)

lemma double_step_9:
  assumes "x = 884279719003555 / 2 ^ 45"
  shows "double_round x = 884279719003555 / 2 ^ 45"
  unfolding assms
  using double_round_eval [where x = "884279719003555 / 2 ^ 45" and k = "4" and n = "7074237752028440"]
  by (simp add: pow2_def rne_def Let_def)

lemma double_step_10:
  assumes "x = 176855943800711 / 1266637395197952"
  shows "double_round x = 5030569068109113 / 2 ^ 55"
  unfolding assms
  using double_round_eval [where x = "176855943800711 / 1266637395197952" and k = "-3" and n = "5030569068109113"]
  by (simp add: pow2_def rne_def Let_def)

lemma double_step_11:
  assumes "x = - (884279719003555 / 2 ^ 45)"
  shows "double_round x = - (884279719003555 / 2 ^ 45)"
  unfolding assms
  using double_round_eval [where x = "- (884279719003555 / 2 ^ 45)" and k = "4" and n = "-7074237752028440"]
  by (simp add: pow2_def rne_def Let_def)

lemma double_step_12:
  assumes "x = - (176855943800711 / 1266637395197952)"
  shows "double_round x = - (5030569068109113 / 2 ^ 55)"
  unfolding assms
  using double_round_eval [where x = "- (176855943800711 / 1266637395197952)" and k = "-3" and n = "-5030569068109113"]
  by (simp add: pow2_def rne_def Let_def)

lemma double_step_13:
  assumes "x = 25142596810554238581887470460529 / 2 ^ 110"
  shows "double_round x = 1395694493897217 / 2 ^ 56"
  unfolding assms
  using double_round_eval [where x = "25142596810554238581887470460529 / 2 ^ 110" and k = "-6" and n = "5582777975588868"]
  by (simp add: pow2_def rne_def Let_def)

lemma double_step_14:
  assumes "x = 19889556528486762294526464184969 / 2 ^ 104"
  shows "double_round x = 8832737443003841 / 2 ^ 53"
  unfolding assms
  using double_round_eval [where x = "19889556528486762294526464184969 / 2 ^ 104" and k = "-1" and n = "8832737443003841"]
  by (simp add: pow2_def rne_def Let_def)

lemma double_step_15:
  assumes "x = 8832737443003841 / 2 ^ 53"
  shows "double_round x = 8832737443003841 / 2 ^ 53"
  unfolding assms
  using double_round_eval [where x = "8832737443003841 / 2 ^ 53" and k = "-1" and n = "8832737443003841"]
  by (simp add: pow2_def rne_def Let_def)

lemma double_step_16:
  assumes "x = 72057594037927945 / 2 ^ 56"
  shows "double_round x = 4503599627370497 / 2 ^ 52"
  unfolding assms
  using double_round_eval [where x = "72057594037927945 / 2 ^ 56" and k = "0" and n = "4503599627370497"]
  by (simp add: pow2_def rne_def Let_def)

lemma double_step_17:
  assumes "x = - (1 / 2 ^ 52)"
  shows "double_round x = - (1 / 2 ^ 52)"
  unfolding assms
  using double_round_eval [where x = "- (1 / 2 ^ 52)" and k = "-52" and n = "-4503599627370496"]
  by (simp add: pow2_def rne_def Let_def)

lemmas double_steps =
  double_step_1 double_step_2 double_step_3 double_step_4 double_step_5 double_step_6
  double_step_7 double_step_8 double_step_9 double_step_10 double_step_11 double_step_12
  double_step_13 double_step_14 double_step_15 double_step_16 double_step_17

lemma haversineDistance_NaN_iff:
  "haversineDistance eng lat1 lon1 lat2 lon2 = None \<longleftrightarrow>
     haversine_a eng lat1 lon1 lat2 lon2 < 0 \<or> fl eng (1 - haversine_a eng lat1 lon1 lat2 lon2) < 0"
  by (simp add: haversineDistance_def Math_sqrt_def fsub_def Let_def)

text \<open>
  C2 fails on doubles. The call \<^verbatim>\<open>haversineDistance(8, 0, -8, 180)\<close> is between two
  antipodal points, whose great-circle distance is half the circumference (about 20015
  km). On every engine that rounds as IEEE 754 prescribes, has the double nearest to \<open>\<pi>\<close>
  as \<^verbatim>\<open>Math.PI\<close> and returns the four library values listed with \<open>double_engine\<close>, the sum
  \<^verbatim>\<open>a\<close> rounds to \<open>1 + 2\<^sup>-\<^sup>5\<^sup>2\<close> (1.0000000000000002), so \<^verbatim>\<open>1-a\<close> is negative,
  \<^verbatim>\<open>Math.sqrt(1-a)\<close> is NaN, and the function returns NaN: the source does not clamp
  \<^verbatim>\<open>a\<close> to \<open>[0, 1]\<close> before the square roots.
\<close>

theorem haversineDistance_antipodal_NaN:
  assumes rounding: "fl eng = double_round"
    and PI: "number_PI eng = 884279719003555 / 2 ^ 48"
    and sin_lat: "lib_sin eng (- (5030569068109113 / 2 ^ 55)) = - (5014239404989977 / 2 ^ 55)"
    and sin_lon: "lib_sin eng (884279719003555 / 2 ^ 49) = 1"
    and cos_lat1: "lib_cos eng (5030569068109113 / 2 ^ 55) = 4459770905381437 / 2 ^ 52"
    and cos_lat2: "lib_cos eng (- (5030569068109113 / 2 ^ 55)) = 4459770905381437 / 2 ^ 52"
  shows "haversine_a eng 8 0 (- 8) 180 = 1 + 1 / 2 ^ 52 \<and>
         haversineDistance eng 8 0 (- 8) 180 = None"
proof -
  have hLat: "fdiv eng (fdiv eng (fmul eng (fsub eng (- 8) 8) (number_PI eng)) 180) 2
                = - (5030569068109113 / 2 ^ 55)"
    by (simp add: fdiv_def fmul_def fsub_def rounding PI double_steps)
  have hLon: "fdiv eng (fdiv eng (fmul eng (fsub eng 180 0) (number_PI eng)) 180) 2
                = 884279719003555 / 2 ^ 49"
    by (simp add: fdiv_def fmul_def fsub_def rounding PI double_steps)
  have r1: "fdiv eng (fmul eng 8 (number_PI eng)) 180 = 5030569068109113 / 2 ^ 55"
    by (simp add: fdiv_def fmul_def rounding PI double_steps)
  have r2: "fdiv eng (fmul eng (- 8) (number_PI eng)) 180 = - (5030569068109113 / 2 ^ 55)"
    by (simp add: fdiv_def fmul_def rounding PI double_steps)
  have left: "fmul eng (- (5014239404989977 / 2 ^ 55)) (- (5014239404989977 / 2 ^ 55))
                = 1395694493897217 / 2 ^ 56"
    by (simp add: fmul_def rounding double_steps)
  have right: "fmul eng (fmul eng (fmul eng (4459770905381437 / 2 ^ 52) (4459770905381437 / 2 ^ 52)) 1) 1
                = 8832737443003841 / 2 ^ 53"
    by (simp add: fmul_def rounding double_steps)
  have total: "fadd eng (1395694493897217 / 2 ^ 56) (8832737443003841 / 2 ^ 53) = 1 + 1 / 2 ^ 52"
    by (simp add: fadd_def rounding double_steps)
  have a: "haversine_a eng 8 0 (- 8) 180 = 1 + 1 / 2 ^ 52"
    unfolding haversine_a_def Let_def hLat hLon r1 r2 sin_lat sin_lon cos_lat1 cos_lat2 left right total
    by (rule refl)
  have "fl eng (1 - haversine_a eng 8 0 (- 8) 180) < 0"
    by (simp add: a rounding double_steps)
  with a show ?thesis
    by (simp add: haversineDistance_NaN_iff)
qed

theorem haversineDistance_antipodal_NaN_witness:
  "fl double_engine = double_round \<and>
   number_PI double_engine = 884279719003555 / 2 ^ 48 \<and>
   lib_sin double_engine (- (5030569068109113 / 2 ^ 55)) = - (5014239404989977 / 2 ^ 55) \<and>
   lib_sin double_engine (884279719003555 / 2 ^ 49) = 1 \<and>
   lib_cos double_engine (5030569068109113 / 2 ^ 55) = 4459770905381437 / 2 ^ 52 \<and>
   lib_cos double_engine (- (5030569068109113 / 2 ^ 55)) = 4459770905381437 / 2 ^ 52 \<and>
   haversine_a double_engine 8 0 (- 8) 180 = 1 + 1 / 2 ^ 52 \<and>
   haversineDistance double_engine 8 0 (- 8) 180 = None"
proof -
  have h1: "fl double_engine = double_round"
    by (simp add: double_engine_def)
  have h2: "number_PI double_engine = 884279719003555 / 2 ^ 48"
    by (simp add: double_engine_def)
  have h3: "lib_sin double_engine (- (5030569068109113 / 2 ^ 55)) = - (5014239404989977 / 2 ^ 55)"
    by (simp add: double_engine_def sample_sin_def)
  have h4: "lib_sin double_engine (884279719003555 / 2 ^ 49) = 1"
    by (simp add: double_engine_def sample_sin_def)
  have h5: "lib_cos double_engine (5030569068109113 / 2 ^ 55) = 4459770905381437 / 2 ^ 52"
    by (simp add: double_engine_def sample_cos_def)
  have h6: "lib_cos double_engine (- (5030569068109113 / 2 ^ 55)) = 4459770905381437 / 2 ^ 52"
    by (simp add: double_engine_def sample_cos_def)
  from h1 h2 h3 h4 h5 h6 haversineDistance_antipodal_NaN [OF h1 h2 h3 h4 h5 h6]
  show ?thesis by blast
qed

section \<open>Properties of generateTrackingNumber\<close>

declare digits10.simps [simp del]

lemma digits10_decimal: "list_all decimal_digit (digits10 n)"
proof (induction n rule: digits10.induct)
  case (1 n)
  have d: "decimal_digit (digit_char k)" if "k < 10" for k
    using that unfolding decimal_digit_def digit_char_def
    by (intro nth_mem) simp
  show ?case
  proof (cases "n < 10")
    case True
    then show ?thesis by (subst digits10.simps) (simp add: d)
  next
    case False
    then have "list_all decimal_digit (digits10 (n div 10))" by (rule "1.IH")
    moreover have "decimal_digit (digit_char (n mod 10))" by (rule d) simp
    ultimately show ?thesis using False by (subst digits10.simps) simp
  qed
qed

lemma digits10_length: "10 ^ k \<le> n \<Longrightarrow> k < length (digits10 n)"
proof (induction k arbitrary: n)
  case 0
  then show ?case by (subst digits10.simps) simp
next
  case (Suc k)
  then have "10 ^ k \<le> n div 10" by (simp add: less_eq_div_iff_mult_less_eq)
  then have "k < length (digits10 (n div 10))" by (rule Suc.IH)
  moreover have "\<not> n < 10"
  proof -
    have "(1::nat) \<le> 10 ^ k" by simp
    then have "(10::nat) \<le> 10 * 10 ^ k" by linarith
    also have "\<dots> \<le> n" using Suc.prems by simp
    finally show ?thesis by simp
  qed
  ultimately show ?case by (subst digits10.simps) simp
qed

lemma slice_last6:
  assumes "6 \<le> length s"
  shows "slice s (- 6) = drop (length s - 6) s" and "length (slice s (- 6)) = 6"
proof -
  have "nat (max (int (length s) + - 6) 0) = length s - 6"
    using assms by simp
  then show "slice s (- 6) = drop (length s - 6) s"
    by (simp add: slice_def Let_def)
  then show "length (slice s (- 6)) = 6"
    using assms by simp
qed

lemma substring_2_6: "substring s 2 6 = take 4 (drop 2 s)"
proof -
  have "take (min 6 (length s) - min 2 (length s)) (drop (min 2 (length s)) s) = take 4 (drop 2 s)"
    by (cases "length s \<le> 2"; cases "6 \<le> length s") (simp_all add: min_def)
  then show ?thesis
    by (simp add: substring_def Let_def min_def max_def)
qed

lemma upper_char_base36: "base36_digit c \<Longrightarrow> upper36_digit (upper_char c)"
  unfolding base36_digit_def upper36_digit_def upper_char_def
  by (elim set_ConsD [elim_format]) auto

text \<open>
  C10. Whenever the clock reads at least 100000 ms (any time later than 100 seconds
  after the epoch, so that the timestamp has six digits to take) and the random number is
  rendered as described above, the tracking number is \<^verbatim>\<open>KOC\<close>, then exactly six decimal
  digits that are the end of the timestamp's decimal rendering, then at most four
  characters out of \<^verbatim>\<open>0-9A-Z\<close>; its length is between 9 and 13.
\<close>

theorem generateTrackingNumber_format:
  assumes now: "100000 \<le> now" and rnd: "radix36_fraction random36"
  shows "\<exists>timestamp random.
           generateTrackingNumber now random36 = ''KOC'' @ timestamp @ random \<and>
           length timestamp = 6 \<and> list_all decimal_digit timestamp \<and>
           (\<exists>front. Number_toString now = front @ timestamp) \<and>
           length random \<le> 4 \<and> list_all upper36_digit random \<and>
           9 \<le> length (generateTrackingNumber now random36) \<and>
           length (generateTrackingNumber now random36) \<le> 13"
proof -
  let ?s = "Number_toString now"
  let ?t = "slice ?s (- 6)"
  let ?r = "toUpperCase (substring random36 2 6)"
  have s: "?s = digits10 (nat now)"
    using now by (simp add: Number_toString_def)
  have "10 ^ 5 \<le> nat now"
    using now by simp
  then have "5 < length (digits10 (nat now))"
    by (rule digits10_length)
  then have len: "6 \<le> length ?s"
    using s by simp
  have t: "?t = drop (length ?s - 6) ?s" and lt: "length ?t = 6"
    using slice_last6 [OF len] by simp_all
  have "list_all decimal_digit ?s"
    using s digits10_decimal by simp
  then have dt: "list_all decimal_digit ?t"
    unfolding t list_all_iff by (blast dest: in_set_dropD)
  have front: "?s = take (length ?s - 6) ?s @ ?t"
    unfolding t by simp
  have lr: "length ?r \<le> 4"
    by (simp add: toUpperCase_def substring_2_6)
  have "list_all base36_digit (take 4 (drop 2 random36))"
    using rnd unfolding radix36_fraction_def list_all_iff
    by (auto dest: in_set_takeD)
  then have dr: "list_all upper36_digit ?r"
    by (simp add: toUpperCase_def substring_2_6 list_all_iff upper_char_base36)
  have g: "generateTrackingNumber now random36 = ''KOC'' @ ?t @ ?r"
    by (simp add: generateTrackingNumber_def Let_def)
  have "9 \<le> length (''KOC'' @ ?t @ ?r)" "length (''KOC'' @ ?t @ ?r) \<le> 13"
    using lt lr by simp_all
  with g lt dt front lr dr show ?thesis
    by metis
qed

theorem generateTrackingNumber_format_witness:
  "(100000::int) \<le> 1730629812345 \<and> radix36_fraction ''0.4fzyo82mvyr'' \<and>
   generateTrackingNumber 1730629812345 ''0.4fzyo82mvyr'' = ''KOC8123454FZY'' \<and>
   (\<exists>timestamp random.
      generateTrackingNumber 1730629812345 ''0.4fzyo82mvyr'' = ''KOC'' @ timestamp @ random \<and>
      length timestamp = 6 \<and> list_all decimal_digit timestamp \<and>
      (\<exists>front. Number_toString 1730629812345 = front @ timestamp) \<and>
      length random \<le> 4 \<and> list_all upper36_digit random \<and>
      9 \<le> length (generateTrackingNumber 1730629812345 ''0.4fzyo82mvyr'') \<and>
      length (generateTrackingNumber 1730629812345 ''0.4fzyo82mvyr'') \<le> 13)"
proof -
  have h1: "(100000::int) \<le> 1730629812345"
    by simp
  have h2: "radix36_fraction ''0.4fzyo82mvyr''"
    by (simp add: radix36_fraction_def base36_digit_def)
  have v: "generateTrackingNumber 1730629812345 ''0.4fzyo82mvyr'' = ''KOC8123454FZY''"
    by (simp add: generateTrackingNumber_def Number_toString_def digits10.simps digit_char_def
        slice_def substring_def toUpperCase_def upper_char_def Let_def)
  show ?thesis
    using h1 h2 v generateTrackingNumber_format [OF h1 h2] by blast
qed

section \<open>Properties of getOSRMRoute and drawOSRMRoute\<close>

lemma bindE_Inr [simp]: "bindE (Inr x) f = f x"
  by (simp add: bindE_def)

lemma bindE_Inl [simp]: "bindE (Inl e) f = Inl e"
  by (simp add: bindE_def)

lemma js_index_present: "present c \<Longrightarrow> \<exists>v. js_index c i = Inr v"
  by (cases c) simp_all

lemma js_index_error: "js_index c i = Inl e \<Longrightarrow> e = TypeError \<and> \<not> present c"
  by (cases c) simp_all

lemma ToString_error: "ToString v = Inl e \<Longrightarrow> e = TypeError"
  by (simp add: ToString_def split: if_splits)

lemma ToNumber_error: "ToNumber conv v = Inl e \<Longrightarrow> e = TypeError"
  by (cases v) (simp_all split: if_splits)

lemma lng_lat_point_ok: "point_ok c \<Longrightarrow> \<exists>p. lng_lat c = Inr p"
  using js_index_present [of c 1] js_index_present [of c 0]
  by (auto simp: point_ok_def lng_lat_def ToString_def)

lemma lng_lat_point_bad: "\<not> point_ok c \<Longrightarrow> lng_lat c = Inl TypeError"
proof (cases "present c")
  case False
  then show ?thesis by (cases c) (simp_all add: lng_lat_def)
next
  case True
  assume bad: "\<not> point_ok c"
  obtain c1 c0 where i: "js_index c 1 = Inr c1" "js_index c 0 = Inr c0"
    using js_index_present [OF True] by blast
  with bad True have "\<not> printable c1 \<or> \<not> printable c0"
    by (simp add: point_ok_def)
  with i show ?thesis
    by (auto simp: lng_lat_def ToString_def)
qed

lemma map_throwing_lng_lat: "list_all point_ok xs \<Longrightarrow> \<exists>ps. map_throwing lng_lat xs = Inr ps"
proof (induction xs)
  case Nil
  then show ?case by simp
next
  case (Cons c xs)
  then obtain p ps where "lng_lat c = Inr p" "map_throwing lng_lat xs = Inr ps"
    using lng_lat_point_ok [of c] by auto
  then show ?case by simp
qed

lemma map_throwing_lng_lat_bad: "\<not> list_all point_ok xs \<Longrightarrow> map_throwing lng_lat xs = Inl TypeError"
proof (induction xs)
  case Nil
  then show ?case by simp
next
  case (Cons c xs)
  show ?case
  proof (cases "point_ok c")
    case True
    then obtain p where "lng_lat c = Inr p"
      using lng_lat_point_ok by blast
    moreover have "map_throwing lng_lat xs = Inl TypeError"
      using Cons True by simp
    ultimately show ?thesis by simp
  next
    case False
    then show ?thesis by (simp add: lng_lat_point_bad)
  qed
qed

lemma request_of_eq: "list_all point_ok xs \<Longrightarrow> map_throwing lng_lat xs = Inr (request_of xs)"
  using map_throwing_lng_lat [of xs] by (auto simp: request_of_def)

lemma getOSRMRoute_missing:
  "getOSRMRoute conv net Undefined console = (Inr None, console)"
  "getOSRMRoute conv net Null console = (Inr None, console)"
  by (simp_all add: getOSRMRoute_def)

lemma getOSRMRoute_short:
  "length xs < 2 \<Longrightarrow> getOSRMRoute conv net (Arr xs) console = (Inr None, console)"
  by (simp add: getOSRMRoute_def js_lt_def)

lemma getOSRMRoute_request:
  assumes "list_all point_ok xs" "2 \<le> length xs"
  shows "getOSRMRoute conv net (Arr xs) console =
           (case osrm_try conv (net (request_of xs)) of
              Inl err \<Rightarrow> (Inr None, console @ [Console_error ''OSRM routing error:'' err])
            | Inr result \<Rightarrow> (Inr result, console))"
  using assms by (simp add: getOSRMRoute_def js_lt_def request_of_eq)

lemma getOSRMRoute_request_fst:
  assumes "list_all point_ok xs" "2 \<le> length xs"
  shows "fst (getOSRMRoute conv net (Arr xs) console) =
           (case osrm_try conv (net (request_of xs)) of Inl err \<Rightarrow> Inr None | Inr result \<Rightarrow> Inr result)"
  by (simp add: getOSRMRoute_request [OF assms] split: sum.split)

lemma getOSRMRoute_bad_point:
  assumes "\<not> list_all point_ok xs" "2 \<le> length xs"
  shows "getOSRMRoute conv net (Arr xs) console = (Inl TypeError, console)"
  using assms by (simp add: getOSRMRoute_def js_lt_def map_throwing_lng_lat_bad)

lemma getOSRMRoute_string:
  assumes "2 \<le> length s"
  shows "getOSRMRoute conv net (Str s) console = (Inl TypeError, console)"
proof -
  from assms have "s \<noteq> []" by auto
  with assms show ?thesis
    by (simp add: getOSRMRoute_def js_lt_def)
qed

lemma getOSRMRoute_rejection:
  assumes "fst (getOSRMRoute conv net coordinates console) = Inl e"
  shows "e = TypeError" and "snd (getOSRMRoute conv net coordinates console) = console"
    and "\<not> coordinate_list coordinates"
proof -
  have t: "truthy coordinates"
    using assms by (cases "truthy coordinates") (simp_all add: getOSRMRoute_def)
  show "snd (getOSRMRoute conv net coordinates console) = console"
    using assms by (auto simp: getOSRMRoute_def split: if_splits sum.splits)
  show "\<not> coordinate_list coordinates"
  proof (cases coordinates)
    case (Arr xs)
    have "list_all point_ok xs \<Longrightarrow> False"
    proof -
      assume ok: "list_all point_ok xs"
      show False
      proof (cases "length xs < 2")
        case True
        with assms Arr show False by (simp add: getOSRMRoute_short)
      next
        case False
        then have "2 \<le> length xs" by simp
        from getOSRMRoute_request_fst [OF ok this, of conv net console] assms Arr
        show False by (simp split: sum.splits)
      qed
    qed
    with Arr show ?thesis by auto
  qed (use t in simp_all)
  show "e = TypeError"
  proof (cases "bindE (js_get coordinates ''length'') (\<lambda>len. js_lt conv len 2)")
    case (Inl e')
    then have "e' = TypeError"
      by (cases coordinates) (auto simp: js_lt_def bindE_def split: sum.splits dest: ToNumber_error)
    with Inl assms t show ?thesis
      by (simp add: getOSRMRoute_def)
  next
    case (Inr short)
    have m: "js_map lng_lat coordinates = Inl e"
      using assms t Inr by (auto simp: getOSRMRoute_def split: if_splits sum.splits)
    show ?thesis
    proof (cases coordinates)
      case (Arr xs)
      with m have "map_throwing lng_lat xs = Inl e" by simp
      then show ?thesis
        using map_throwing_lng_lat [of xs] map_throwing_lng_lat_bad [of xs] by (cases "list_all point_ok xs") auto
    qed (use m in simp_all)
  qed
qed

lemma osrm_try_rejected:
  "osrm_try conv FetchRejected = Inl FetchError"
  "osrm_try conv JsonRejected = Inl JsonSyntaxError"
  by (simp_all add: osrm_try_def)

lemma osrm_try_not_ok:
  "js_get data ''code'' \<noteq> Inr (Str ''Ok'') \<Longrightarrow> osrm_try conv (Parsed data) \<in> {Inr None} \<union> range Inl"
  by (cases "js_get data ''code''") (auto simp: osrm_try_def)

lemma osrm_try_no_routes:
  "no_routes data \<Longrightarrow> osrm_try conv (Parsed data) \<in> {Inr None} \<union> range Inl"
  by (cases "js_get data ''code''") (auto simp: osrm_try_def no_routes_def js_gt_def)

lemma js_map_swap_pair:
  "js_map swap_pair (Arr (map (\<lambda>(lng, lat). Arr [lng, lat]) points)) =
     Inr (map (\<lambda>(lng, lat). Arr [lat, lng]) points)"
  by (induction points) (auto simp: swap_pair_def)

lemma osrm_try_success:
  assumes "js_get data ''code'' = Inr (Str ''Ok'')"
    and "js_get data ''routes'' = Inr (Arr (route # rest))"
    and "js_get route ''geometry'' = Inr geometry"
    and "js_get geometry ''coordinates'' = Inr (Arr (map (\<lambda>(lng, lat). Arr [lng, lat]) points))"
    and "js_get route ''distance'' = Inr (Num metres)"
    and "js_get route ''duration'' = Inr seconds"
  shows "osrm_try conv (Parsed data) =
           Inr (Some \<lparr>route_coordinates = map (\<lambda>(lng, lat). Arr [lat, lng]) points,
                      route_distance = Num (metres / 1000),
                      route_duration = seconds\<rparr>)"
  using assms by (simp add: osrm_try_def js_gt_def js_div_def js_map_swap_pair del: js_map.simps)

text \<open>
  C9, as the script has it. \<^verbatim>\<open>getOSRMRoute\<close> resolves to \<^verbatim>\<open>null\<close> when the coordinate list
  is missing or is an array of fewer than two points. For an array of two or more points
  that are in order (none missing, both coordinates convertible to strings) it never
  throws: it resolves to \<^verbatim>\<open>null\<close> when the fetch or the parse of the body is rejected and
  when the reply's code is not \<^verbatim>\<open>'Ok'\<close> or the reply has no routes, and on a reply with code
  \<^verbatim>\<open>'Ok'\<close> whose first route has a geometry of \<open>[lng, lat]\<close> points and a distance of
  \<open>metres\<close> it resolves to the points as \<open>[lat, lng]\<close>, the distance \<open>metres / 1000\<close> and the
  route's duration. It does throw where \<^verbatim>\<open>coordinates.map\<close> on line 198 fails, which is
  before the \<^verbatim>\<open>try\<close>: on an array of two or more points one of which is not in order, and on
  a string of two or more characters, the promise is rejected with a TypeError and nothing
  is logged. Every rejection is such a TypeError on an input that is not a coordinate list.
\<close>

theorem getOSRMRoute_throws_only_before_try:
  "(coordinates = Undefined \<or> coordinates = Null \<or> (\<exists>ys. coordinates = Arr ys \<and> length ys < 2) \<longrightarrow>
      getOSRMRoute conv net coordinates console = (Inr None, console)) \<and>
   (coordinates = Arr xs \<and> 2 \<le> length xs \<and> list_all point_ok xs \<longrightarrow>
      (\<exists>result. fst (getOSRMRoute conv net coordinates console) = Inr result)) \<and>
   (coordinates = Arr xs \<and> 2 \<le> length xs \<and> list_all point_ok xs \<and>
    (net (request_of xs) = FetchRejected \<or> net (request_of xs) = JsonRejected) \<longrightarrow>
      fst (getOSRMRoute conv net coordinates console) = Inr None) \<and>
   (coordinates = Arr xs \<and> 2 \<le> length xs \<and> list_all point_ok xs \<and>
    net (request_of xs) = Parsed data \<and>
    (js_get data ''code'' \<noteq> Inr (Str ''Ok'') \<or> no_routes data) \<longrightarrow>
      fst (getOSRMRoute conv net coordinates console) = Inr None) \<and>
   (coordinates = Arr xs \<and> 2 \<le> length xs \<and> list_all point_ok xs \<and>
    net (request_of xs) = Parsed data \<and>
    js_get data ''code'' = Inr (Str ''Ok'') \<and>
    js_get data ''routes'' = Inr (Arr (route # rest)) \<and>
    js_get route ''geometry'' = Inr geometry \<and>
    js_get geometry ''coordinates'' = Inr (Arr (map (\<lambda>(lng, lat). Arr [lng, lat]) points)) \<and>
    js_get route ''distance'' = Inr (Num metres) \<and>
    js_get route ''duration'' = Inr seconds \<longrightarrow>
      getOSRMRoute conv net coordinates console =
        (Inr (Some \<lparr>route_coordinates = map (\<lambda>(lng, lat). Arr [lat, lng]) points,
                    route_distance = Num (metres / 1000),
                    route_duration = seconds\<rparr>), console)) \<and>
   (coordinates = Arr xs \<and> 2 \<le> length xs \<and> \<not> list_all point_ok xs \<longrightarrow>
      getOSRMRoute conv net coordinates console = (Inl TypeError, console)) \<and>
   (coordinates = Str s \<and> 2 \<le> length s \<longrightarrow>
      getOSRMRoute conv net coordinates console = (Inl TypeError, console)) \<and>
   (fst (getOSRMRoute conv net coordinates console) = Inl e \<longrightarrow>
      e = TypeError \<and> snd (getOSRMRoute conv net coordinates console) = console \<and>
      \<not> coordinate_list coordinates)"
proof (intro conjI impI)
  assume "coordinates = Undefined \<or> coordinates = Null \<or> (\<exists>ys. coordinates = Arr ys \<and> length ys < 2)"
  then show "getOSRMRoute conv net coordinates console = (Inr None, console)"
    by (auto simp: getOSRMRoute_missing getOSRMRoute_short)
next
  assume a: "coordinates = Arr xs \<and> 2 \<le> length xs \<and> list_all point_ok xs"
  then have p: "list_all point_ok xs" and l: "2 \<le> length xs" by simp_all
  show "\<exists>result. fst (getOSRMRoute conv net coordinates console) = Inr result"
    using a by (simp add: getOSRMRoute_request_fst [OF p l] split: sum.split)
next
  assume a: "coordinates = Arr xs \<and> 2 \<le> length xs \<and> list_all point_ok xs \<and>
          (net (request_of xs) = FetchRejected \<or> net (request_of xs) = JsonRejected)"
  then have p: "list_all point_ok xs" and l: "2 \<le> length xs" by simp_all
  from a show "fst (getOSRMRoute conv net coordinates console) = Inr None"
    by (auto simp: getOSRMRoute_request_fst [OF p l] osrm_try_rejected)
next
  assume a: "coordinates = Arr xs \<and> 2 \<le> length xs \<and> list_all point_ok xs \<and>
          net (request_of xs) = Parsed data \<and>
          (js_get data ''code'' \<noteq> Inr (Str ''Ok'') \<or> no_routes data)"
  then have p: "list_all point_ok xs" and l: "2 \<le> length xs" by simp_all
  from a have "osrm_try conv (Parsed data) \<in> {Inr None} \<union> range Inl"
    using osrm_try_not_ok osrm_try_no_routes by blast
  then show "fst (getOSRMRoute conv net coordinates console) = Inr None"
    using a by (auto simp: getOSRMRoute_request_fst [OF p l])
next
  assume a: "coordinates = Arr xs \<and> 2 \<le> length xs \<and> list_all point_ok xs \<and>
          net (request_of xs) = Parsed data \<and>
          js_get data ''code'' = Inr (Str ''Ok'') \<and>
          js_get data ''routes'' = Inr (Arr (route # rest)) \<and>
          js_get route ''geometry'' = Inr geometry \<and>
          js_get geometry ''coordinates'' = Inr (Arr (map (\<lambda>(lng, lat). Arr [lng, lat]) points)) \<and>
          js_get route ''distance'' = Inr (Num metres) \<and>
          js_get route ''duration'' = Inr seconds"
  then have p: "list_all point_ok xs" and l: "2 \<le> length xs" by simp_all
  have "osrm_try conv (Parsed data) =
           Inr (Some \<lparr>route_coordinates = map (\<lambda>(lng, lat). Arr [lat, lng]) points,
                      route_distance = Num (metres / 1000),
                      route_duration = seconds\<rparr>)"
    using a by (intro osrm_try_success [where geometry = geometry and rest = rest and route = route]) simp_all
  then show "getOSRMRoute conv net coordinates console =
                 (Inr (Some \<lparr>route_coordinates = map (\<lambda>(lng, lat). Arr [lat, lng]) points,
                             route_distance = Num (metres / 1000),
                             route_duration = seconds\<rparr>), console)"
    using a by (simp add: getOSRMRoute_request [OF p l])
next
  assume "coordinates = Arr xs \<and> 2 \<le> length xs \<and> \<not> list_all point_ok xs"
  then show "getOSRMRoute conv net coordinates console = (Inl TypeError, console)"
    by (simp add: getOSRMRoute_bad_point)
next
  assume "coordinates = Str s \<and> 2 \<le> length s"
  then show "getOSRMRoute conv net coordinates console = (Inl TypeError, console)"
    by (simp add: getOSRMRoute_string)
next
  assume r: "fst (getOSRMRoute conv net coordinates console) = Inl e"
  show "e = TypeError" and "snd (getOSRMRoute conv net coordinates console) = console"
    and "\<not> coordinate_list coordinates"
    using getOSRMRoute_rejection [OF r] by simp_all
qed

theorem getOSRMRoute_throws_only_before_try_witness:
  "list_all point_ok izmit_gebze \<and> 2 \<le> length izmit_gebze \<and>
   getOSRMRoute no_conv (\<lambda>request. Parsed sample_reply) (Arr izmit_gebze) [] =
     (Inr (Some \<lparr>route_coordinates = [Arr [Num 40.7656, Num 29.9406], Arr [Num 40.8027, Num 29.4307]],
                 route_distance = Num 51.2345,
                 route_duration = Num 2800\<rparr>), []) \<and>
   fst (getOSRMRoute no_conv (\<lambda>request. FetchRejected) (Arr izmit_gebze) []) = Inr None \<and>
   fst (getOSRMRoute no_conv (\<lambda>request. Parsed (Obj [(''code'', Str ''NoRoute'')])) (Arr izmit_gebze) []) = Inr None \<and>
   getOSRMRoute no_conv (\<lambda>request. Parsed sample_reply) (Arr [Arr [Num 40.7656, Num 29.9406]]) [] = (Inr None, []) \<and>
   \<not> list_all point_ok [Arr [Num 40.7656, Num 29.9406], Arr [Num 0, Obj [(''toString'', Num 1), (''valueOf'', Num 1)]]] \<and>
   getOSRMRoute no_conv (\<lambda>request. Parsed sample_reply)
     (Arr [Arr [Num 40.7656, Num 29.9406], Arr [Num 0, Obj [(''toString'', Num 1), (''valueOf'', Num 1)]]]) [] =
     (Inl TypeError, []) \<and>
   getOSRMRoute no_conv (\<lambda>request. Parsed sample_reply) (Str ''40.7656,29.9406'') [] =
     (Inl TypeError, [])"
proof -
  have ok: "list_all point_ok izmit_gebze"
    by (simp add: izmit_gebze_def point_ok_def)
  have len: "2 \<le> length izmit_gebze"
    by (simp add: izmit_gebze_def)
  have bad: "\<not> list_all point_ok [Arr [Num 40.7656, Num 29.9406], Arr [Num 0, Obj [(''toString'', Num 1), (''valueOf'', Num 1)]]]"
    by (simp add: point_ok_def)
  have good: "getOSRMRoute no_conv (\<lambda>request. Parsed sample_reply) (Arr izmit_gebze) [] =
     (Inr (Some \<lparr>route_coordinates = [Arr [Num 40.7656, Num 29.9406], Arr [Num 40.8027, Num 29.4307]],
                 route_distance = Num 51.2345,
                 route_duration = Num 2800\<rparr>), [])"
    using ok len getOSRMRoute_throws_only_before_try [where coordinates = "Arr izmit_gebze"
        and conv = no_conv and net = "\<lambda>request. Parsed sample_reply"
        and console = "[]" and xs = izmit_gebze and data = sample_reply and route = sample_route
        and rest = "[]" and metres = "51234.5" and seconds = "Num 2800"
        and geometry = "Obj [(''coordinates'', Arr [Arr [Num 29.9406, Num 40.7656], Arr [Num 29.4307, Num 40.8027]])]"
        and points = "[(Num 29.9406, Num 40.7656), (Num 29.4307, Num 40.8027)]"]
    by (simp add: sample_reply_def sample_route_def)
  have rej: "fst (getOSRMRoute no_conv (\<lambda>request. FetchRejected) (Arr izmit_gebze) []) = Inr None"
    using ok len getOSRMRoute_throws_only_before_try [where coordinates = "Arr izmit_gebze"
        and net = "\<lambda>request. FetchRejected" and xs = izmit_gebze]
    by simp
  have nr: "fst (getOSRMRoute no_conv (\<lambda>request. Parsed (Obj [(''code'', Str ''NoRoute'')])) (Arr izmit_gebze) []) = Inr None"
    using ok len getOSRMRoute_throws_only_before_try [where coordinates = "Arr izmit_gebze"
        and net = "\<lambda>request. Parsed (Obj [(''code'', Str ''NoRoute'')])"
        and xs = izmit_gebze and data = "Obj [(''code'', Str ''NoRoute'')]"]
    by simp
  have short: "getOSRMRoute no_conv (\<lambda>request. Parsed sample_reply) (Arr [Arr [Num 40.7656, Num 29.9406]]) [] = (Inr None, [])"
    using getOSRMRoute_throws_only_before_try [where coordinates = "Arr [Arr [Num 40.7656, Num 29.9406]]"
        and net = "\<lambda>request. Parsed sample_reply"]
    by simp
  have thrown: "getOSRMRoute no_conv (\<lambda>request. Parsed sample_reply)
     (Arr [Arr [Num 40.7656, Num 29.9406], Arr [Num 0, Obj [(''toString'', Num 1), (''valueOf'', Num 1)]]]) [] =
     (Inl TypeError, [])"
    using bad getOSRMRoute_throws_only_before_try [where
        coordinates = "Arr [Arr [Num 40.7656, Num 29.9406], Arr [Num 0, Obj [(''toString'', Num 1), (''valueOf'', Num 1)]]]"
        and xs = "[Arr [Num 40.7656, Num 29.9406], Arr [Num 0, Obj [(''toString'', Num 1), (''valueOf'', Num 1)]]]"
        and net = "\<lambda>request. Parsed sample_reply"]
    by simp
  have chars: "getOSRMRoute no_conv (\<lambda>request. Parsed sample_reply) (Str ''40.7656,29.9406'') [] =
     (Inl TypeError, [])"
    using getOSRMRoute_throws_only_before_try [where coordinates = "Str ''40.7656,29.9406''"
        and s = "''40.7656,29.9406''" and net = "\<lambda>request. Parsed sample_reply"]
    by simp
  from ok len good rej nr short bad thrown chars show ?thesis
    by simp
qed

text \<open>
  C9, as the claim has it, fails: the promise is rejected with a TypeError for the array
  \<^verbatim>\<open>[[40.7656, 29.9406], null]\<close>, whose second point is missing, and for the string
  \<^verbatim>\<open>'ab'\<close>; in both calls \<^verbatim>\<open>coordinates.map\<close> throws before the \<^verbatim>\<open>try\<close> is entered.
\<close>

theorem getOSRMRoute_rejects:
  "fst (getOSRMRoute no_conv offline (Arr [Arr [Num 40.7656, Num 29.9406], Null]) []) = Inl TypeError \<and>
   fst (getOSRMRoute no_conv offline (Str ''ab'') []) = Inl TypeError"
  by (simp add: getOSRMRoute_def js_lt_def lng_lat_def ToString_def)

lemma latlng_pair_point_ok: "latlng_pair c \<Longrightarrow> point_ok c"
  by (induction c rule: latlng_pair.induct) (simp_all add: point_ok_def)

lemma waypoint_list_coordinates: "list_all latlng_pair xs \<Longrightarrow> list_all point_ok xs"
  by (simp add: list_all_iff latlng_pair_point_ok)

lemma osrm_try_unavailable:
  "osrm_unavailable net xs \<Longrightarrow> osrm_try conv (net (request_of xs)) \<in> {Inr None} \<union> range Inl"
  using osrm_try_not_ok [of _ conv] osrm_try_no_routes [of _ conv]
  by (auto simp: osrm_unavailable_def osrm_try_rejected split: fetch_result.splits)

lemma getOSRMRoute_unavailable:
  assumes "list_all latlng_pair xs" and "length xs < 2 \<or> osrm_unavailable net xs"
  shows "fst (getOSRMRoute conv net (Arr xs) console) = Inr None"
proof (cases "length xs < 2")
  case True
  then show ?thesis by (simp add: getOSRMRoute_short)
next
  case False
  then have len: "2 \<le> length xs" and un: "osrm_unavailable net xs"
    using assms(2) by simp_all
  have p: "list_all point_ok xs"
    using assms(1) by (rule waypoint_list_coordinates)
  show ?thesis
    using osrm_try_unavailable [OF un, of conv]
    by (auto simp: getOSRMRoute_request_fst [OF p len])
qed

lemma L_polyline_waypoints:
  "list_all latlng_pair xs \<Longrightarrow> L_polyline (Arr xs) opts = Inr \<lparr>latlngs = xs, options = opts\<rparr>"
  by (simp add: L_polyline_def)

lemma L_polyline_Inr: "L_polyline p opts = Inr x \<Longrightarrow> options x = opts \<and> p = Arr (latlngs x)"
  by (auto simp: L_polyline_def split: js.splits if_splits)

lemma drawOSRMRoute_null:
  assumes "list_all latlng_pair xs"
    and "fst (getOSRMRoute conv net (Arr xs) console) = Inr None"
  shows "drawOSRMRoute conv net layers (Arr xs) color weight console =
           (Inr \<lparr>drawn_polyline = straight_line xs color weight,
                 drawn_distance = Null, drawn_duration = Null\<rparr>,
            layers @ [straight_line xs color weight],
            snd (getOSRMRoute conv net (Arr xs) console) @
              [Console_warn ''OSRM failed, falling back to straight line''])"
proof -
  obtain c where g: "getOSRMRoute conv net (Arr xs) console = (Inr None, c)"
    using assms(2) by (cases "getOSRMRoute conv net (Arr xs) console") simp
  show ?thesis
    by (simp add: drawOSRMRoute_def g Let_def L_polyline_waypoints [OF assms(1)] straight_line_def)
qed

lemma osrm_try_distance_not_null:
  "osrm_try conv reply = Inr (Some r) \<Longrightarrow> route_distance r \<noteq> Null"
  by (auto simp: osrm_try_def bindE_def js_div_def
      split: fetch_result.splits sum.splits if_splits option.splits)

lemma getOSRMRoute_distance_not_null:
  assumes "fst (getOSRMRoute conv net coordinates console) = Inr (Some r)"
  shows "route_distance r \<noteq> Null"
  using assms osrm_try_distance_not_null [of conv _ r]
  by (auto simp: getOSRMRoute_def split: if_splits sum.splits)

lemma drawOSRMRoute_result:
  assumes "fst (drawOSRMRoute conv net layers waypoints color weight console) = Inr d"
  shows "(drawn_distance d = Null \<and> drawn_duration d = Null \<and>
            drawn_polyline d = straight_line (latlngs (drawn_polyline d)) color weight \<and>
            waypoints = Arr (latlngs (drawn_polyline d))) \<or>
         (\<exists>r. fst (getOSRMRoute conv net waypoints console) = Inr (Some r) \<and>
              drawn_distance d = route_distance r \<and> drawn_duration d = route_duration r \<and>
              drawn_distance d \<noteq> Null \<and>
              opt_dashArray (options (drawn_polyline d)) = None \<and>
              latlngs (drawn_polyline d) = route_coordinates r)"
proof (cases "getOSRMRoute conv net waypoints console")
  case (Pair res c)
  show ?thesis
  proof (cases res)
    case (Inl e)
    with Pair assms show ?thesis by (simp add: drawOSRMRoute_def Let_def)
  next
    case (Inr route)
    show ?thesis
    proof (cases "\<exists>r. route = Some r \<and> route_coordinates r \<noteq> []")
      case True
      then obtain r where r: "route = Some r" "route_coordinates r \<noteq> []" by blast
      have "route_distance r \<noteq> Null"
        using getOSRMRoute_distance_not_null [of conv net waypoints console r] Pair Inr r by simp
      then show ?thesis
        using assms Pair Inr r
        by (auto simp: drawOSRMRoute_def Let_def split: sum.splits dest: L_polyline_Inr)
    next
      case False
      then have "(case route of None \<Rightarrow> None | Some r \<Rightarrow> if route_coordinates r \<noteq> [] then Some r else None) = None"
        by (cases route) auto
      then show ?thesis
        using assms Pair Inr
        by (auto simp: drawOSRMRoute_def Let_def straight_line_def split: sum.splits dest: L_polyline_Inr)
    qed
  qed
qed

lemma straight_line_dashed: "opt_dashArray (options (straight_line xs color weight)) = Some ''10, 10''"
  by (simp add: straight_line_def)

text \<open>
  C1, as the script has it. For an array of \<open>[lat, lng]\<close> waypoints for which OSRM is
  unavailable (fewer than two points, a rejected fetch or parse, a reply that is not
  \<^verbatim>\<open>'Ok'\<close> or has no routes), \<^verbatim>\<open>drawOSRMRoute\<close> does not abort: it logs a warning, adds the
  dashed straight line through the waypoints to the map and returns it with distance
  \<^verbatim>\<open>null\<close> and duration \<^verbatim>\<open>null\<close>. No distance is estimated. The null distance is the flag:
  a result with distance \<^verbatim>\<open>null\<close> is this fallback, and a result with another distance
  carries the distance and the geometry that \<^verbatim>\<open>getOSRMRoute\<close> returned, on a solid line.
\<close>

theorem drawOSRMRoute_fallback:
  assumes wps: "waypoint_list waypoints"
  shows "(waypoints = Arr xs \<and> (length xs < 2 \<or> osrm_unavailable net xs) \<longrightarrow>
            drawOSRMRoute conv net layers waypoints color weight console =
              (Inr \<lparr>drawn_polyline = straight_line xs color weight,
                    drawn_distance = Null, drawn_duration = Null\<rparr>,
               layers @ [straight_line xs color weight],
               snd (getOSRMRoute conv net waypoints console) @
                 [Console_warn ''OSRM failed, falling back to straight line''])) \<and>
         (waypoints = Arr xs \<and>
          fst (drawOSRMRoute conv net layers waypoints color weight console) = Inr d \<and>
          drawn_distance d = Null \<longrightarrow>
            drawn_polyline d = straight_line xs color weight \<and> drawn_duration d = Null) \<and>
         (fst (drawOSRMRoute conv net layers waypoints color weight console) = Inr d \<and>
          drawn_distance d \<noteq> Null \<longrightarrow>
            (\<exists>r. fst (getOSRMRoute conv net waypoints console) = Inr (Some r) \<and>
                 drawn_distance d = route_distance r \<and>
                 latlngs (drawn_polyline d) = route_coordinates r \<and>
                 opt_dashArray (options (drawn_polyline d)) = None))"
proof (intro conjI impI)
  assume a: "waypoints = Arr xs \<and> (length xs < 2 \<or> osrm_unavailable net xs)"
  with wps have l: "list_all latlng_pair xs" by simp
  have "fst (getOSRMRoute conv net (Arr xs) console) = Inr None"
    using a by (intro getOSRMRoute_unavailable [OF l]) simp
  then show "drawOSRMRoute conv net layers waypoints color weight console =
              (Inr \<lparr>drawn_polyline = straight_line xs color weight,
                    drawn_distance = Null, drawn_duration = Null\<rparr>,
               layers @ [straight_line xs color weight],
               snd (getOSRMRoute conv net waypoints console) @
                 [Console_warn ''OSRM failed, falling back to straight line''])"
    using a drawOSRMRoute_null [OF l] by simp
next
  assume a: "waypoints = Arr xs \<and>
          fst (drawOSRMRoute conv net layers waypoints color weight console) = Inr d \<and>
          drawn_distance d = Null"
  then have "fst (drawOSRMRoute conv net layers waypoints color weight console) = Inr d"
    by blast
  from drawOSRMRoute_result [OF this] a
  show "drawn_polyline d = straight_line xs color weight" and "drawn_duration d = Null"
    by auto
next
  assume a: "fst (drawOSRMRoute conv net layers waypoints color weight console) = Inr d \<and>
          drawn_distance d \<noteq> Null"
  then have "fst (drawOSRMRoute conv net layers waypoints color weight console) = Inr d"
    by blast
  from drawOSRMRoute_result [OF this] a
  show "\<exists>r. fst (getOSRMRoute conv net waypoints console) = Inr (Some r) \<and>
                 drawn_distance d = route_distance r \<and>
                 latlngs (drawn_polyline d) = route_coordinates r \<and>
                 opt_dashArray (options (drawn_polyline d)) = None"
    by auto
qed

theorem drawOSRMRoute_fallback_witness:
  "waypoint_list (Arr izmit_gebze) \<and> osrm_unavailable offline izmit_gebze \<and>
   drawOSRMRoute no_conv offline [] (Arr izmit_gebze) Undefined Undefined [] =
     (Inr \<lparr>drawn_polyline = straight_line izmit_gebze Undefined Undefined,
           drawn_distance = Null, drawn_duration = Null\<rparr>,
      [straight_line izmit_gebze Undefined Undefined],
      [Console_error ''OSRM routing error:'' FetchError,
       Console_warn ''OSRM failed, falling back to straight line''])"
proof -
  have wf: "waypoint_list (Arr izmit_gebze)"
    by (simp add: izmit_gebze_def)
  have un: "osrm_unavailable offline izmit_gebze"
    by (simp add: osrm_unavailable_def offline_def)
  have log: "snd (getOSRMRoute no_conv offline (Arr izmit_gebze) []) =
      [Console_error ''OSRM routing error:'' FetchError]"
    by (simp add: getOSRMRoute_def izmit_gebze_def js_lt_def lng_lat_def ToString_def offline_def
        osrm_try_def)
  show ?thesis
    using wf un log
      drawOSRMRoute_fallback [OF wf, where xs = izmit_gebze and net = offline and conv = no_conv
        and layers = "[]" and color = Undefined and weight = Undefined and console = "[]"]
    by simp
qed

lemma haversine_road_estimate_not_null: "haversine_road_estimate eng lat1 lon1 lat2 lon2 \<noteq> Null"
  by (simp add: haversine_road_estimate_def split: option.split)

text \<open>
  C1, as the claim has it, fails: with the network down, the distance returned for the
  waypoints Izmit and Gebze is \<^verbatim>\<open>null\<close>, not the Haversine distance scaled by 1.35.
\<close>

theorem drawOSRMRoute_no_estimate:
  "map_sum id drawn_distance
     (fst (drawOSRMRoute no_conv offline [] (Arr izmit_gebze) Undefined Undefined [])) = Inr Null \<and>
   map_sum id drawn_distance
     (fst (drawOSRMRoute no_conv offline [] (Arr izmit_gebze) Undefined Undefined [])) \<noteq>
   Inr (haversine_road_estimate double_engine 40.7656 29.9406 40.8027 29.4307)"
proof -
  have l: "list_all latlng_pair izmit_gebze"
    by (simp add: izmit_gebze_def)
  have "osrm_unavailable offline izmit_gebze"
    by (simp add: osrm_unavailable_def offline_def)
  then have "fst (getOSRMRoute no_conv offline (Arr izmit_gebze) []) = Inr None"
    by (intro getOSRMRoute_unavailable [OF l]) simp
  then have "map_sum id drawn_distance
     (fst (drawOSRMRoute no_conv offline [] (Arr izmit_gebze) Undefined Undefined [])) = Inr Null"
    by (simp add: drawOSRMRoute_null [OF l])
  then show ?thesis
    using haversine_road_estimate_not_null by (metis sum.inject(2))
qed

section \<open>Properties of the Capacity Selector\<close>

lemma relax_down_length [simp]: "length (relax_down c t w) = length t"
  by (induction c t w rule: relax_down.induct) auto

lemma relax_down_nth:
  "w < length t \<Longrightarrow> j < length t \<Longrightarrow>
   relax_down c t w ! j =
     (if j \<le> w \<and> weight_kg c \<le> j then max (t ! j) (t ! (j - weight_kg c) + priority c) else t ! j)"
proof (induction c t w rule: relax_down.induct)
  case (1 c t)
  then show ?case by (auto simp: nth_list_update)
next
  case (2 c t w)
  show ?case
  proof (cases "Suc w < weight_kg c")
    case True
    then show ?thesis by auto
  next
    case False
    let ?t = "t[Suc w := max (t ! Suc w) (t ! (Suc w - weight_kg c) + priority c)]"
    have ih: "relax_down c ?t w ! j =
        (if j \<le> w \<and> weight_kg c \<le> j then max (?t ! j) (?t ! (j - weight_kg c) + priority c) else ?t ! j)"
      using "2.IH" [OF False] "2.prems" by simp
    show ?thesis
    proof (cases "j = Suc w")
      case True
      then show ?thesis using False ih "2.prems" by simp
    next
      case False
      then show ?thesis using \<open>\<not> Suc w < weight_kg c\<close> ih "2.prems"
        by (auto simp: nth_list_update)
    qed
  qed
qed

lemma rows_nonempty [simp]: "rows cap processed \<noteq> []"
  by (cases processed) simp_all

lemma hd_rows_length [simp]: "length (hd (rows cap processed)) = Suc cap"
  by (induction processed) simp_all

lemma hd_rows_opt: "w \<le> cap \<Longrightarrow> hd (rows cap processed) ! w = opt processed w"
proof (induction processed arbitrary: w)
  case Nil
  then show ?case by (simp del: replicate.simps)
next
  case (Cons c processed)
  have "w - weight_kg c \<le> cap" using Cons.prems by simp
  then show ?case
    using Cons.prems Cons.IH by (simp add: relax_down_nth)
qed

lemma opt_upper:
  "subseq s cs \<Longrightarrow> total_weight s \<le> w \<Longrightarrow> total_priority s \<le> opt cs w"
proof (induction cs arbitrary: s w)
  case Nil
  then have "s = []" by simp
  then show ?case by (simp add: total_priority_def)
next
  case (Cons c cs)
  show ?case
  proof (cases s)
    case Nil
    then show ?thesis by (simp add: total_priority_def)
  next
    case (Cons x s')
    show ?thesis
    proof (cases "x = c")
      case True
      with Cons Cons.prems have sub: "subseq s' cs" and wt: "weight_kg c + total_weight s' \<le> w"
        by (simp_all add: total_weight_def)
      then have "total_priority s' \<le> opt cs (w - weight_kg c)"
        by (intro Cons.IH) simp_all
      then show ?thesis
        using wt Cons True by (simp add: total_priority_def)
    next
      case False
      with Cons Cons.prems have "subseq s cs" by simp
      then have "total_priority s \<le> opt cs w"
        using Cons.prems by (intro Cons.IH) simp_all
      then show ?thesis by (simp add: max_def)
    qed
  qed
qed

lemma opt_mono: "opt cs w \<le> opt (c # cs) w"
  by simp

lemma backtrack_rows:
  assumes "w \<le> cap" and "backtrack processed (rows cap processed) w = (chosen, left)"
  shows "total_weight chosen \<le> w \<and> total_priority chosen = opt processed w \<and>
         subseq chosen processed \<and> mset chosen + mset left = mset processed"
  using assms
proof (induction processed arbitrary: w chosen left)
  case Nil
  then show ?case by (simp add: total_weight_def total_priority_def)
next
  case (Cons c processed)
  obtain prev older where r: "rows cap processed = prev # older"
    by (cases "rows cap processed") simp_all
  then have prev: "prev = hd (rows cap processed)" by simp
  let ?row = "relax_down c prev cap"
  have row: "?row ! w = opt (c # processed) w"
    using hd_rows_opt [of w cap "c # processed"] Cons.prems(1) prev by simp
  have pv: "prev ! w = opt processed w"
    using hd_rows_opt [of w cap processed] Cons.prems(1) prev by simp
  show ?case
  proof (cases "?row ! w \<noteq> prev ! w")
    case True
    then obtain ch where b: "backtrack processed (rows cap processed) (w - weight_kg c) = (ch, left)"
      and ch: "chosen = c # ch"
      using Cons.prems(2) r by (auto split: prod.splits)
    have fits: "weight_kg c \<le> w" and val: "opt (c # processed) w = opt processed (w - weight_kg c) + priority c"
      using True row pv by (auto split: if_splits simp: max_def)
    have "w - weight_kg c \<le> cap" using Cons.prems(1) by simp
    from Cons.IH [OF this b] show ?thesis
      using fits val ch by (auto simp: total_weight_def total_priority_def)
  next
    case False
    then obtain lf where b: "backtrack processed (rows cap processed) w = (chosen, lf)"
      and lf: "left = c # lf"
      using Cons.prems(2) r by (auto split: prod.splits)
    from Cons.IH [OF Cons.prems(1) b] show ?thesis
      using False row pv lf by (auto intro: list_emb_Cons)
  qed
qed

lemma subseq_rev_mono: "subseq xs ys \<Longrightarrow> subseq (rev xs) (rev ys)"
proof (induction rule: list_emb.induct)
  case (list_emb_Nil ys)
  show ?case by simp
next
  case (list_emb_Cons xs ys y)
  then show ?case by (simp add: subseq_rev_drop_many)
next
  case (list_emb_Cons2 x y xs ys)
  then show ?case by (simp add: list_emb_append_mono)
qed

lemma knapsack_optimal:
  assumes "knapsack cargos cap = (selected, deferred)"
  shows "total_weight selected \<le> cap \<and> subseq selected cargos \<and>
         mset selected + mset deferred = mset cargos \<and>
         (\<forall>other. subseq other cargos \<and> total_weight other \<le> cap \<longrightarrow>
            total_priority other \<le> total_priority selected)"
proof -
  obtain chosen left where b: "backtrack (rev cargos) (rows cap (rev cargos)) cap = (chosen, left)"
    by (cases "backtrack (rev cargos) (rows cap (rev cargos)) cap")
  with assms have sel: "selected = rev chosen" and def: "deferred = rev left"
    by (simp_all add: knapsack_def)
  have bt: "total_weight chosen \<le> cap" "total_priority chosen = opt (rev cargos) cap"
    "subseq chosen (rev cargos)" "mset chosen + mset left = mset (rev cargos)"
    using backtrack_rows [OF order_refl b] by simp_all
  have w: "total_weight selected \<le> cap"
    using bt(1) sel by (simp add: total_weight_def rev_map [symmetric])
  have p: "total_priority selected = opt (rev cargos) cap"
    using bt(2) sel by (simp add: total_priority_def rev_map [symmetric])
  have sub: "subseq selected cargos"
    using subseq_rev_mono [OF bt(3)] sel by simp
  have part: "mset selected + mset deferred = mset cargos"
    using bt(4) sel def by simp
  have best: "total_priority other \<le> total_priority selected"
    if "subseq other cargos" "total_weight other \<le> cap" for other
  proof -
    have "subseq (rev other) (rev cargos)"
      using that(1) by (rule subseq_rev_mono)
    moreover have "total_weight (rev other) \<le> cap"
      using that(2) by (simp add: total_weight_def rev_map [symmetric])
    ultimately have "total_priority (rev other) \<le> opt (rev cargos) cap"
      by (rule opt_upper)
    then show ?thesis
      using p by (simp add: total_priority_def rev_map [symmetric])
  qed
  from w sub part best show ?thesis by blast
qed

text \<open>
  C8. When the total pending cargo weight exceeds the base fleet's capacity, the subset
  the selector chooses is a sub-list of the pending cargo whose total weight is within
  the capacity of the fleet with the rental vehicle, and its total priority is at least
  that of every sub-list of the pending cargo that weighs no more than the chosen one
  (indeed of every sub-list that fits the capacity).
\<close>

theorem select_knapsack_optimal:
  assumes over: "base_capacity fleet < total_weight cargos"
    and sel: "select cargos fleet = (selected, deferred)"
  shows "total_weight selected \<le> fleet_capacity fleet \<and> subseq selected cargos \<and>
         mset selected + mset deferred = mset cargos \<and>
         (\<forall>other. subseq other cargos \<and> total_weight other \<le> total_weight selected \<longrightarrow>
            total_priority other \<le> total_priority selected) \<and>
         (\<forall>other. subseq other cargos \<and> total_weight other \<le> fleet_capacity fleet \<longrightarrow>
            total_priority other \<le> total_priority selected)"
proof -
  from over sel have k: "knapsack cargos (fleet_capacity fleet) = (selected, deferred)"
    by (simp add: select_def)
  note opt = knapsack_optimal [OF k]
  then have w: "total_weight selected \<le> fleet_capacity fleet"
    by simp
  have "total_priority other \<le> total_priority selected"
    if "subseq other cargos" "total_weight other \<le> total_weight selected" for other
  proof -
    have "total_weight other \<le> fleet_capacity fleet"
      using that(2) w by (rule order_trans)
    with opt that(1) show ?thesis by blast
  qed
  with opt show ?thesis by blast
qed

theorem select_knapsack_optimal_witness:
  "base_capacity sample_fleet < total_weight sample_cargos \<and>
   select sample_cargos sample_fleet =
     ([sample_cargos ! 1, sample_cargos ! 2], [sample_cargos ! 0, sample_cargos ! 3]) \<and>
   total_weight [sample_cargos ! 1, sample_cargos ! 2] \<le> fleet_capacity sample_fleet \<and>
   subseq [sample_cargos ! 0, sample_cargos ! 1] sample_cargos \<and>
   total_weight [sample_cargos ! 0, sample_cargos ! 1] \<le> total_weight [sample_cargos ! 1, sample_cargos ! 2] \<and>
   total_priority [sample_cargos ! 0, sample_cargos ! 1] \<le> total_priority [sample_cargos ! 1, sample_cargos ! 2]"
proof -
  have h1: "base_capacity sample_fleet < total_weight sample_cargos"
    by (simp add: base_capacity_def total_weight_def sample_fleet_def sample_cargos_def)
  have h2: "select sample_cargos sample_fleet =
     ([sample_cargos ! 1, sample_cargos ! 2], [sample_cargos ! 0, sample_cargos ! 3])"
    by (simp add: select_def sample_cargos_def sample_fleet_def total_weight_def base_capacity_def
        fleet_capacity_def knapsack_def numeral_nat nth_list_update)
  have s: "subseq [sample_cargos ! 0, sample_cargos ! 1] sample_cargos"
    by (simp add: sample_cargos_def)
  have w: "total_weight [sample_cargos ! 0, sample_cargos ! 1] \<le> total_weight [sample_cargos ! 1, sample_cargos ! 2]"
    by (simp add: total_weight_def sample_cargos_def)
  from select_knapsack_optimal [OF h1 h2] s w
  have "total_weight [sample_cargos ! 1, sample_cargos ! 2] \<le> fleet_capacity sample_fleet"
    and "total_priority [sample_cargos ! 0, sample_cargos ! 1] \<le> total_priority [sample_cargos ! 1, sample_cargos ! 2]"
    by blast+
  with h1 h2 s w show ?thesis by blast
qed

section \<open>Properties of the Route Optimizer\<close>

lemma two_opt_mset: "mset (two_opt road_km depot xs) = mset xs"
proof (induction road_km depot xs rule: two_opt.induct)
  case (1 road_km depot xs)
  show ?case
  proof (cases "find (\<lambda>s. route_length road_km depot s < route_length road_km depot xs) (reversals xs)")
    case None
    then show ?thesis by (subst two_opt.simps) simp
  next
    case (Some s)
    then have "s \<in> set (reversals xs)" by (auto simp: find_Some_iff)
    then have "mset s = mset xs" by (rule reversals_mset)
    with "1.IH" [OF Some] Some show ?thesis by (subst two_opt.simps) simp
  qed
qed

lemma two_opt_distance:
  "route_length road_km depot (two_opt road_km depot xs) \<le> route_length road_km depot xs"
proof (induction road_km depot xs rule: two_opt.induct)
  case (1 road_km depot xs)
  show ?case
  proof (cases "find (\<lambda>s. route_length road_km depot s < route_length road_km depot xs) (reversals xs)")
    case None
    then show ?thesis by (subst two_opt.simps) simp
  next
    case (Some s)
    then have "route_length road_km depot s < route_length road_km depot xs"
      by (auto simp: find_Some_iff)
    with "1.IH" [OF Some] Some show ?thesis by (subst two_opt.simps) simp
  qed
qed

lemma two_opt_local_optimum:
  "ys \<in> set (reversals (two_opt road_km depot xs)) \<Longrightarrow>
   route_length road_km depot (two_opt road_km depot xs) \<le> route_length road_km depot ys"
proof (induction road_km depot xs rule: two_opt.induct)
  case (1 road_km depot xs)
  show ?case
  proof (cases "find (\<lambda>s. route_length road_km depot s < route_length road_km depot xs) (reversals xs)")
    case None
    then have eq: "two_opt road_km depot xs = xs" by (subst two_opt.simps) simp
    from None have "\<forall>s\<in>set (reversals xs). \<not> route_length road_km depot s < route_length road_km depot xs"
      by (simp add: find_None_iff)
    with "1.prems" eq show ?thesis by auto
  next
    case (Some s)
    then have eq: "two_opt road_km depot xs = two_opt road_km depot s" by (subst two_opt.simps) simp
    with "1.IH" [OF Some] "1.prems" show ?thesis by simp
  qed
qed

lemma total_weight_mset: "mset xs = mset ys \<Longrightarrow> total_weight xs = total_weight ys"
  unfolding total_weight_def by (metis mset_map sum_mset_sum_list)

lemma route_cost_two_opt:
  assumes "0 \<le> cost_per_km v"
  shows "route_cost cfg road_km depot v (two_opt road_km depot xs) \<le> route_cost cfg road_km depot v xs"
proof -
  let ?ys = "two_opt road_km depot xs"
  have m: "mset ?ys = mset xs" by (rule two_opt_mset)
  then have w: "total_weight ?ys = total_weight xs" by (rule total_weight_mset)
  have e: "?ys = [] \<longleftrightarrow> xs = []"
    using m by (metis mset_zero_iff)
  have "route_length road_km depot ?ys * cost_per_km v \<le> route_length road_km depot xs * cost_per_km v"
    using two_opt_distance [of road_km depot xs] assms by (rule mult_right_mono)
  then show ?thesis
    by (simp add: route_cost_def w e)
qed

lemma fitness_refine:
  assumes "\<forall>v\<in>set fleet. 0 \<le> cost_per_km v"
  shows "fitness cfg road_km depot fleet (refine_individual road_km depot ind)
           \<le> fitness cfg road_km depot fleet ind"
proof -
  have z: "zip fleet (map (two_opt road_km depot) ind) =
           map (\<lambda>(v, xs). (v, two_opt road_km depot xs)) (zip fleet ind)"
    by (simp add: zip_map2)
  have "sum_list (map (\<lambda>p. route_cost cfg road_km depot (fst p) (two_opt road_km depot (snd p))) (zip fleet ind))
        \<le> sum_list (map (\<lambda>p. route_cost cfg road_km depot (fst p) (snd p)) (zip fleet ind))"
  proof (rule sum_list_mono)
    fix p assume "p \<in> set (zip fleet ind)"
    then have "(fst p, snd p) \<in> set (zip fleet ind)"
      by simp
    then have "fst p \<in> set fleet"
      by (rule set_zip_leftD)
    with assms have "0 \<le> cost_per_km (fst p)" by simp
    then show "route_cost cfg road_km depot (fst p) (two_opt road_km depot (snd p))
               \<le> route_cost cfg road_km depot (fst p) (snd p)"
      by (rule route_cost_two_opt)
  qed
  then show ?thesis
    by (simp add: fitness_def refine_individual_def z case_prod_unfold comp_def)
qed

lemma sort_key_hd_least:
  assumes "pop \<noteq> []"
  shows "hd (sort_key f pop) \<in> set pop" and "\<forall>x\<in>set pop. f (hd (sort_key f pop)) \<le> f x"
proof -
  let ?s = "sort_key f pop"
  from assms have ne: "?s \<noteq> []"
    by (metis length_sort length_0_conv)
  then obtain b rest where s: "?s = b # rest" by (cases ?s) auto
  then have "b \<in> set ?s" by simp
  then have "b \<in> set pop" by (simp only: set_sort)
  then show "hd ?s \<in> set pop" using s by simp
  have "sorted (map f ?s)" by (rule sorted_sort_key)
  then have "\<forall>x\<in>set rest. f b \<le> f x"
    using s by simp
  moreover have "set pop = insert b (set rest)"
    using s by (metis set_sort list.simps(15))
  ultimately show "\<forall>x\<in>set pop. f (hd ?s) \<le> f x"
    using s by auto
qed

lemma best_fitness_hd:
  assumes "pop \<noteq> []"
  shows "best_fitness cfg road_km depot fleet pop =
           fitness cfg road_km depot fleet (hd (ranked cfg road_km depot fleet pop))"
proof -
  let ?f = "fitness cfg road_km depot fleet"
  have "Min (?f ` set pop) = ?f (hd (sort_key ?f pop))"
  proof (rule Min_eqI)
    show "finite (?f ` set pop)" by simp
    show "?f (hd (sort_key ?f pop)) \<le> y" if "y \<in> ?f ` set pop" for y
      using that sort_key_hd_least(2) [OF assms, of ?f] by auto
    show "?f (hd (sort_key ?f pop)) \<in> ?f ` set pop"
      using sort_key_hd_least(1) [OF assms, of ?f] by simp
  qed
  then show ?thesis
    by (simp add: best_fitness_def ranked_def)
qed

lemma generation_best:
  assumes ne: "pop \<noteq> []" and k: "0 < elite_count cfg"
    and cost: "\<forall>v\<in>set fleet. 0 \<le> cost_per_km v"
    and g: "generation breed cfg road_km depot fleet (pop, rng) = (pop', rng')"
  shows "pop' \<noteq> []"
    and "best_fitness cfg road_km depot fleet pop' \<le> best_fitness cfg road_km depot fleet pop"
proof -
  let ?f = "fitness cfg road_km depot fleet"
  let ?r = "ranked cfg road_km depot fleet pop"
  let ?es = "elites cfg road_km depot fleet pop"
  obtain offspring where
    p': "pop' = refine_elites cfg road_km depot (?es @ offspring)"
    using g by (auto simp: generation_def next_population_def Let_def split: prod.splits)
  have rne: "?r \<noteq> []"
    using ne by (metis ranked_def length_sort length_0_conv)
  then obtain b rest where r: "?r = b # rest" by (cases ?r) auto
  obtain k' where k': "elite_count cfg = Suc k'"
    using k by (cases "elite_count cfg") auto
  have es: "?es = b # take k' rest"
    by (simp add: elites_def r k')
  have "take (elite_count cfg) (?es @ offspring) = b # take k' (take k' rest @ offspring)"
    by (simp add: es k')
  then have mem: "refine_individual road_km depot b \<in> set pop'"
    by (simp add: p' refine_elites_def)
  then show "pop' \<noteq> []" by auto
  have "best_fitness cfg road_km depot fleet pop' \<le> ?f (refine_individual road_km depot b)"
    unfolding best_fitness_def using mem by (intro Min_le) auto
  also have "\<dots> \<le> ?f b"
    using cost by (rule fitness_refine)
  also have "?f b = best_fitness cfg road_km depot fleet pop"
    using best_fitness_hd [OF ne, of cfg road_km depot fleet] r by simp
  finally show "best_fitness cfg road_km depot fleet pop' \<le> best_fitness cfg road_km depot fleet pop" .
qed

lemma evolve_nonempty:
  assumes "fst state \<noteq> []" and "0 < elite_count cfg" and "\<forall>v\<in>set fleet. 0 \<le> cost_per_km v"
  shows "fst (evolve breed cfg road_km depot fleet n state) \<noteq> []"
proof (induction n)
  case 0
  then show ?case using assms(1) by simp
next
  case (Suc n)
  obtain pop rng where e: "evolve breed cfg road_km depot fleet n state = (pop, rng)"
    by (cases "evolve breed cfg road_km depot fleet n state")
  obtain pop' rng' where g: "generation breed cfg road_km depot fleet (pop, rng) = (pop', rng')"
    by (cases "generation breed cfg road_km depot fleet (pop, rng)")
  from Suc e have "pop \<noteq> []" by simp
  from generation_best(1) [OF this assms(2,3) g] show ?case
    by (simp add: e g)
qed

lemma elites_carried:
  "next_population breed cfg road_km depot fleet (pop, rng) = (pop', rng') \<Longrightarrow>
   take (length (elites cfg road_km depot fleet pop)) pop' = elites cfg road_km depot fleet pop"
  by (auto simp: next_population_def Let_def split: prod.splits)

text \<open>
  C7. With a non-empty population, at least one elite and no negative cost per km, the
  best-individual fitness after generation \<open>n + 1\<close> is at most the one after generation \<open>n\<close>,
  whatever selection, crossover and mutation produce: the elites (ten by default) open
  the next population unchanged, and their refinement by 2-opt costs nothing. One
  application of 2-opt to a route returns the same deliveries in an order whose distance
  is at most the route's.
\<close>

theorem best_fitness_non_increasing:
  assumes ne: "fst state \<noteq> []" and k: "0 < elite_count cfg"
    and cost: "list_all (\<lambda>v. 0 \<le> cost_per_km v) fleet"
  shows "best_fitness cfg road_km depot fleet (fst (evolve breed cfg road_km depot fleet (Suc n) state))
           \<le> best_fitness cfg road_km depot fleet (fst (evolve breed cfg road_km depot fleet n state)) \<and>
         take (length (elites cfg road_km depot fleet (fst (evolve breed cfg road_km depot fleet n state))))
              (fst (next_population breed cfg road_km depot fleet (evolve breed cfg road_km depot fleet n state)))
           = elites cfg road_km depot fleet (fst (evolve breed cfg road_km depot fleet n state)) \<and>
         route_length road_km depot (two_opt road_km depot deliveries)
           \<le> route_length road_km depot deliveries \<and>
         mset (two_opt road_km depot deliveries) = mset deliveries"
proof -
  have c: "\<forall>v\<in>set fleet. 0 \<le> cost_per_km v"
    using cost by (simp add: list_all_iff)
  obtain pop rng where e: "evolve breed cfg road_km depot fleet n state = (pop, rng)"
    by (cases "evolve breed cfg road_km depot fleet n state")
  obtain pop' rng' where g: "generation breed cfg road_km depot fleet (pop, rng) = (pop', rng')"
    by (cases "generation breed cfg road_km depot fleet (pop, rng)")
  obtain pop2 rng2 where np: "next_population breed cfg road_km depot fleet (pop, rng) = (pop2, rng2)"
    by (cases "next_population breed cfg road_km depot fleet (pop, rng)")
  have "pop \<noteq> []"
    using evolve_nonempty [OF ne k c, of breed road_km depot n] e by simp
  from generation_best(2) [OF this k c g]
  have "best_fitness cfg road_km depot fleet (fst (evolve breed cfg road_km depot fleet (Suc n) state))
           \<le> best_fitness cfg road_km depot fleet (fst (evolve breed cfg road_km depot fleet n state))"
    by (simp add: e g)
  moreover have "take (length (elites cfg road_km depot fleet (fst (evolve breed cfg road_km depot fleet n state))))
              (fst (next_population breed cfg road_km depot fleet (evolve breed cfg road_km depot fleet n state)))
           = elites cfg road_km depot fleet (fst (evolve breed cfg road_km depot fleet n state))"
    using elites_carried [OF np] by (simp add: e np)
  ultimately show ?thesis
    using two_opt_distance [of road_km depot deliveries] two_opt_mset [of road_km depot deliveries]
    by simp
qed

theorem best_fitness_non_increasing_witness:
  "fst (sample_population, 0::nat) \<noteq> [] \<and> 0 < elite_count sample_config \<and>
   list_all (\<lambda>v. 0 \<le> cost_per_km v) sample_fleet \<and>
   best_fitness sample_config line_km 0 sample_fleet
     (fst (evolve copy_last sample_config line_km 0 sample_fleet (Suc 0) (sample_population, 0)))
     \<le> best_fitness sample_config line_km 0 sample_fleet (fst (sample_population, 0::nat)) \<and>
   route_length line_km 0 (two_opt line_km 0 [sample_cargos ! 2, sample_cargos ! 0, sample_cargos ! 1])
     \<le> route_length line_km 0 [sample_cargos ! 2, sample_cargos ! 0, sample_cargos ! 1]"
proof -
  have h1: "fst (sample_population, 0::nat) \<noteq> []"
    by (simp add: sample_population_def)
  have h2: "0 < elite_count sample_config"
    by (simp add: sample_config_def)
  have h3: "list_all (\<lambda>v. 0 \<le> cost_per_km v) sample_fleet"
    by (simp add: sample_fleet_def)
  show ?thesis
    using h1 h2 h3
      best_fitness_non_increasing [OF h1 h2 h3, of line_km 0 copy_last 0
        "[sample_cargos ! 2, sample_cargos ! 0, sample_cargos ! 1]"]
    by simp
qed

end
